theory Spec2Isabelle
  imports Main
begin

section \<open>Model identifiers of the server-stream backend (opencode/types.ts)\<close>

text \<open>
  JavaScript's \<^verbatim>\<open>String.prototype.split\<close> with a one-character separator: the
  pieces between the separators, in order. The empty string splits into one empty piece,
  and a string with \<open>n\<close> separators into \<open>n + 1\<close> pieces.
\<close>

fun js_split :: "char \<Rightarrow> string \<Rightarrow> string list" where
  "js_split c [] = [[]]"
| "js_split c (x # xs) =
     (if x = c then [] # js_split c xs
      else (case js_split c xs of
              [] \<Rightarrow> [[x]]
            | p # ps \<Rightarrow> (x # p) # ps))"

text \<open>\<^verbatim>\<open>Array.prototype.join\<close> with a one-character separator.\<close>

fun js_join :: "char \<Rightarrow> string list \<Rightarrow> string" where
  "js_join c [] = []"
| "js_join c [p] = p"
| "js_join c (p # q # ps) = p @ c # js_join c (q # ps)"

record OpencodeModel =
  providerID :: string
  modelID :: string

text \<open>
  \<^verbatim>\<open>
  export function parseModelString(model: string): OpencodeModel | null {
      const parts = model.split('/');
      if (parts.length !== 2) { return null; }
      return { providerID: parts[0], modelID: parts[1] };
  }
  \<close>
  The result \<^verbatim>\<open>null\<close> is \<open>None\<close>.
\<close>

definition parseModelString :: "string \<Rightarrow> OpencodeModel option" where
  "parseModelString model =
     (let parts = js_split (CHR ''/'') model in
      if length parts \<noteq> 2 then None
      else Some \<lparr>providerID = parts ! 0, modelID = parts ! 1\<rparr>)"

text \<open>
  \<^verbatim>\<open>
  export function formatModelString(model: OpencodeModel): string {
      return `${model.providerID}/${model.modelID}`;
  }
  \<close>
\<close>

definition formatModelString :: "OpencodeModel \<Rightarrow> string" where
  "formatModelString model = providerID model @ ''/'' @ modelID model"

section \<open>JavaScript strings\<close>

text \<open>
  A string is a list of code units; the model keeps the code units below 256. Of these,
  \<^verbatim>\<open>String.prototype.trim\<close> strips tab, line feed, vertical tab, form feed, carriage
  return, space and the no-break space.
\<close>

definition js_whitespace :: "char \<Rightarrow> bool" where
  "js_whitespace c =
     (c = CHR 0x09 \<or> c = CHR 0x0A \<or> c = CHR 0x0B \<or> c = CHR 0x0C \<or> c = CHR 0x0D \<or>
      c = CHR 0x20 \<or> c = CHR 0xA0)"

definition js_trim :: "string \<Rightarrow> string" where
  "js_trim s = rev (dropWhile js_whitespace (rev (dropWhile js_whitespace s)))"

text \<open>Truthiness of a value of type \<^verbatim>\<open>string | undefined\<close>: defined and not empty.\<close>

fun truthy :: "string option \<Rightarrow> bool" where
  "truthy None = False"
| "truthy (Some s) = (s \<noteq> [])"

text \<open>\<^verbatim>\<open>a || b\<close> on such values, and \<^verbatim>\<open>a || 'literal'\<close>.\<close>

definition js_or :: "string option \<Rightarrow> string option \<Rightarrow> string option" where
  "js_or a b = (if truthy a then a else b)"

definition js_or_str :: "string option \<Rightarrow> string \<Rightarrow> string" where
  "js_or_str a d = (case a of None \<Rightarrow> d | Some s \<Rightarrow> if s \<noteq> [] then s else d)"

section \<open>Canonical events (AgentMessage)\<close>

text \<open>
  A JSON value that the code only passes on or tests with \<^verbatim>\<open>typeof v === 'string'\<close>:
  a string, or any other value, which is kept as its \<^verbatim>\<open>JSON.stringify\<close> text.
\<close>

datatype jsval = JString string | JOther string

text \<open>
  Of these values the falsy ones are the empty string, \<^verbatim>\<open>0\<close>, \<^verbatim>\<open>false\<close> and \<^verbatim>\<open>null\<close>;
  \<^verbatim>\<open>v || {}\<close> replaces a falsy or absent \<open>v\<close> by the empty object.
\<close>

fun js_falsy :: "jsval \<Rightarrow> bool" where
  "js_falsy (JString s) = (s = [])"
| "js_falsy (JOther t) = (t = ''0'' \<or> t = ''false'' \<or> t = ''null'')"

definition or_empty_object :: "jsval option \<Rightarrow> jsval" where
  "or_empty_object v =
     (case v of None \<Rightarrow> JOther ''{}'' | Some a \<Rightarrow> if js_falsy a then JOther ''{}'' else a)"

datatype Status = Starting | Running | Idle | Stopped | Error

text \<open>
  The messages a backend passes to \<^verbatim>\<open>emit\<close>, with the fields the two backends and the
  two drivers write and read. \<open>SystemInit\<close> is the message of type \<^verbatim>\<open>event\<close> named
  \<^verbatim>\<open>system-init\<close>, with the four fields of its payload. \<open>FsEdit\<close> has the description,
  the diff and the path.
\<close>

datatype AgentMessage =
    StatusMsg Status "string option"
  | ModelOutput "string option" "string option"
  | ToolCall string jsval string
  | ToolResult string jsval string
  | FsEdit string "string option" "string option"
  | TerminalOutput string
  | PermissionRequest string string jsval
  | TokenCount nat nat
  | SystemInit string "string list" string string

datatype PermissionMode = Default | ReadOnly | SafeYolo | Yolo

section \<open>The drivers (runDroid, runOpencode)\<close>

text \<open>
  What a driver sends out: messages to the session (\<^verbatim>\<open>session.sendCodexMessage\<close>; their
  \<^verbatim>\<open>id\<close>, a fresh random UUID, is left out, except for a forwarded permission request,
  which carries the request's own id), session events, keep-alive pulses, changes of the
  terminal's message buffer, and calls of the backend.
\<close>

datatype CodexMessage =
    TurnAborted
  | TaskStarted
  | TaskComplete
  | Message string
  | CodexPermissionRequest string string jsval

datatype UiOp =
    AddMessage string string
  | RemoveLastMessage string
  | UpdateLastMessage string string

datatype BackendCall = RespondToPermission string bool

text \<open>
  The variables the closures of \<^verbatim>\<open>runDroid\<close> and \<^verbatim>\<open>runOpencode\<close> share, the length of
  the message queue (\<^verbatim>\<open>messageQueue.size()\<close>), and the outputs so far, oldest first.
\<close>

record Driver =
  shouldExit :: bool
  thinking :: bool
  isResponseInProgress :: bool
  accumulatedResponse :: string
  currentPermissionMode :: PermissionMode
  queueSize :: nat
  sessionEvents :: "string list"
  pushes :: "string list"
  codexMessages :: "CodexMessage list"
  keepAlives :: "bool list"
  messageBuffer :: "UiOp list"
  backendCalls :: "BackendCall list"

definition sendCodexMessage :: "CodexMessage \<Rightarrow> Driver \<Rightarrow> Driver" where
  "sendCodexMessage m d = d\<lparr>codexMessages := codexMessages d @ [m]\<rparr>"

definition keepAlive :: "Driver \<Rightarrow> Driver" where
  "keepAlive d = d\<lparr>keepAlives := keepAlives d @ [thinking d]\<rparr>"

definition addMessage :: "string \<Rightarrow> string \<Rightarrow> Driver \<Rightarrow> Driver" where
  "addMessage text kind d = d\<lparr>messageBuffer := messageBuffer d @ [AddMessage text kind]\<rparr>"

text \<open>
  \<^verbatim>\<open>
  const sendReady = () => {
      session.sendSessionEvent({ type: 'ready' });
      try { api.push().sendToAllDevices("It's ready!", ...); } catch (pushError) { ... }
  };
  \<close>
  The second argument is the text of the push notification, which differs between the
  two drivers.
\<close>

definition sendReady :: "string \<Rightarrow> Driver \<Rightarrow> Driver" where
  "sendReady waiting d =
     d\<lparr>sessionEvents := sessionEvents d @ [''ready''], pushes := pushes d @ [waiting]\<rparr>"

text \<open>
  \<^verbatim>\<open>
  const emitReadyIfIdle = (): boolean => {
      if (shouldExit) return false;
      if (thinking) return false;
      if (isResponseInProgress) return false;
      if (messageQueue.size() > 0) return false;
      sendReady();
      return true;
  };
  \<close>
\<close>

definition emitReadyIfIdle :: "string \<Rightarrow> Driver \<Rightarrow> bool \<times> Driver" where
  "emitReadyIfIdle waiting d =
     (if shouldExit d then (False, d)
      else if thinking d then (False, d)
      else if isResponseInProgress d then (False, d)
      else if queueSize d > 0 then (False, d)
      else (True, sendReady waiting d))"

text \<open>
  The handler a driver registers with its backend, one function per \<^verbatim>\<open>case\<close> of its
  \<^verbatim>\<open>switch (msg.type)\<close>.
  \<^verbatim>\<open>
  case 'model-output':
      if (msg.textDelta || msg.fullText) {
          const text = msg.fullText || msg.textDelta || '';
          if (!isResponseInProgress) {
              messageBuffer.removeLastMessage('system');
              messageBuffer.addMessage(text, 'assistant');
              isResponseInProgress = true;
          } else {
              messageBuffer.updateLastMessage(text, 'assistant');
          }
          accumulatedResponse += (msg.textDelta || '');
      }
  \<close>
\<close>

definition onModelOutput :: "string option \<Rightarrow> string option \<Rightarrow> Driver \<Rightarrow> Driver" where
  "onModelOutput textDelta fullText d =
     (if truthy (js_or textDelta fullText) then
        (let text = js_or_str (js_or fullText textDelta) [];
             d1 = (if \<not> isResponseInProgress d
                   then d\<lparr>messageBuffer := messageBuffer d
                              @ [RemoveLastMessage ''system'', AddMessage text ''assistant''],
                          isResponseInProgress := True\<rparr>
                   else d\<lparr>messageBuffer := messageBuffer d
                              @ [UpdateLastMessage text ''assistant'']\<rparr>)
         in d1\<lparr>accumulatedResponse := accumulatedResponse d1 @ js_or_str textDelta []\<rparr>)
      else d)"

text \<open>
  \<^verbatim>\<open>
  case 'status':
      if (msg.status === 'running') {
          thinking = true;
          session.keepAlive(thinking, 'remote');
          session.sendCodexMessage({ type: 'task_started', id: randomUUID() });
          messageBuffer.addMessage('Thinking...', 'system');
      } else if (msg.status === 'idle' || msg.status === 'stopped') {
          thinking = false;
          session.keepAlive(thinking, 'remote');
          if (isResponseInProgress && accumulatedResponse.trim()) {
              session.sendCodexMessage({ type: 'message', message: accumulatedResponse, ... });
              session.sendCodexMessage({ type: 'task_complete', id: randomUUID() });
              accumulatedResponse = '';
              isResponseInProgress = false;
          }
      } else if (msg.status === 'error') {
          thinking = false;
          session.keepAlive(thinking, 'remote');
          session.sendCodexMessage({ type: 'turn_aborted', id: randomUUID() });
          const errorMessage = msg.detail || 'Unknown error';
          messageBuffer.addMessage(`Error: ${errorMessage}`, 'status');
          session.sendCodexMessage({ type: 'message', message: `Error: ${errorMessage}`, ... });
          accumulatedResponse = '';
          isResponseInProgress = false;
      }
  \<close>
\<close>

definition onStatus :: "Status \<Rightarrow> string option \<Rightarrow> Driver \<Rightarrow> Driver" where
  "onStatus status detail d =
     (if status = Running then
        addMessage ''Thinking...'' ''system''
          (sendCodexMessage TaskStarted (keepAlive (d\<lparr>thinking := True\<rparr>)))
      else if status = Idle \<or> status = Stopped then
        (let d1 = keepAlive (d\<lparr>thinking := False\<rparr>) in
         if isResponseInProgress d1 \<and> js_trim (accumulatedResponse d1) \<noteq> [] then
           (sendCodexMessage TaskComplete
              (sendCodexMessage (Message (accumulatedResponse d1)) d1))
             \<lparr>accumulatedResponse := [], isResponseInProgress := False\<rparr>
         else d1)
      else if status = Error then
        (let d1 = sendCodexMessage TurnAborted (keepAlive (d\<lparr>thinking := False\<rparr>));
             errorMessage = js_or_str detail ''Unknown error'';
             d2 = addMessage (''Error: '' @ errorMessage) ''status'' d1;
             d3 = sendCodexMessage (Message (''Error: '' @ errorMessage)) d2
         in d3\<lparr>accumulatedResponse := [], isResponseInProgress := False\<rparr>)
      else d)"

text \<open>
  Only \<^verbatim>\<open>runOpencode\<close> has this case:
  \<^verbatim>\<open>
  case 'permission-request':
      if (currentPermissionMode === 'yolo' || currentPermissionMode === 'safe-yolo') {
          opencodeBackend.respondToPermission(msg.id, true);
      } else {
          messageBuffer.addMessage(`... Permission requested: ${msg.reason}`, 'system');
          session.sendCodexMessage({ type: 'permission-request' as any,
              id: msg.id, reason: msg.reason, payload: msg.payload });
      }
  \<close>
  The call of the backend is recorded in \<open>backendCalls\<close>; what the backend does with it
  is \<open>opencode_respondToPermission\<close> below. The texts added to the message buffer for
  a permission request and for a file edit start with a pictogram, which is left out here.
\<close>

definition onPermissionRequest :: "string \<Rightarrow> string \<Rightarrow> jsval \<Rightarrow> Driver \<Rightarrow> Driver" where
  "onPermissionRequest rid reason payload d =
     (if currentPermissionMode d = Yolo \<or> currentPermissionMode d = SafeYolo then
        d\<lparr>backendCalls := backendCalls d @ [RespondToPermission rid True]\<rparr>
      else
        sendCodexMessage (CodexPermissionRequest rid reason payload)
          (addMessage ('' Permission requested: '' @ reason) ''system'' d))"

fun droid_onMessage :: "AgentMessage \<Rightarrow> Driver \<Rightarrow> Driver" where
  "droid_onMessage (ModelOutput textDelta fullText) d = onModelOutput textDelta fullText d"
| "droid_onMessage (StatusMsg status detail) d = onStatus status detail d"
| "droid_onMessage (ToolCall toolName args callId) d =
     addMessage (''Using tool: '' @ toolName) ''system'' d"
| "droid_onMessage (FsEdit description diff path) d =
     addMessage ('' '' @ description) ''system'' d"
| "droid_onMessage _ d = d"

fun opencode_onMessage :: "AgentMessage \<Rightarrow> Driver \<Rightarrow> Driver" where
  "opencode_onMessage (ModelOutput textDelta fullText) d = onModelOutput textDelta fullText d"
| "opencode_onMessage (StatusMsg status detail) d = onStatus status detail d"
| "opencode_onMessage (ToolCall toolName args callId) d =
     addMessage (''Using tool: '' @ toolName) ''system'' d"
| "opencode_onMessage (FsEdit description diff path) d =
     addMessage ('' '' @ description) ''system'' d"
| "opencode_onMessage (PermissionRequest rid reason payload) d =
     onPermissionRequest rid reason payload d"
| "opencode_onMessage _ d = d"

section \<open>Exceptions and the handler list (emit)\<close>

text \<open>
  A call either returns a value or throws, and in both cases leaves a state behind. A
  thrown value is an \<^verbatim>\<open>Error\<close> with its message, or anything else.
\<close>

datatype exn = ErrorObj string | OtherThrown

datatype ('a, 's) outcome = Returned 'a 's | Threw exn 's

fun state_of :: "('a, 's) outcome \<Rightarrow> 's" where
  "state_of (Returned a s) = s"
| "state_of (Threw e s) = s"

text \<open>Sequencing: a throw skips the rest.\<close>

fun and_then :: "('a, 's) outcome \<Rightarrow> ('a \<Rightarrow> 's \<Rightarrow> ('b, 's) outcome) \<Rightarrow> ('b, 's) outcome" where
  "and_then (Returned a s) f = f a s"
| "and_then (Threw e s) f = Threw e s"

text \<open>\<^verbatim>\<open>try { body } catch (e) { handler }\<close>.\<close>

fun try_catch :: "('a, 's) outcome \<Rightarrow> (exn \<Rightarrow> 's \<Rightarrow> ('a, 's) outcome) \<Rightarrow> ('a, 's) outcome" where
  "try_catch (Returned a s) h = Returned a s"
| "try_catch (Threw e s) h = h e s"

datatype LogEntry =
    HandlerError
  | FailedToParseEvent string
  | CancellingCurrentProcess
  | NoSessionForPermissionResponse

text \<open>
  What lies outside a backend object: the state its message handlers act on (for the
  drivers above, a \<open>Driver\<close>), the debug log (only the entries named in \<open>LogEntry\<close> are
  kept), and, as instrumentation, the messages passed to \<^verbatim>\<open>emit\<close> so far.
\<close>

record 'w Env =
  world :: 'w
  debugLog :: "LogEntry list"
  emitted :: "AgentMessage list"

type_synonym 'w AgentMessageHandler = "AgentMessage \<Rightarrow> 'w \<Rightarrow> (unit, 'w) outcome"

definition logger_debug :: "LogEntry \<Rightarrow> ('w, 'z) Env_scheme \<Rightarrow> ('w, 'z) Env_scheme" where
  "logger_debug entry env = env\<lparr>debugLog := debugLog env @ [entry]\<rparr>"

text \<open>
  A handler that only acts on the world; what it did before throwing stays done.
\<close>

definition call_handler ::
  "'w AgentMessageHandler \<Rightarrow> AgentMessage \<Rightarrow> ('w, 'z) Env_scheme
     \<Rightarrow> (unit, ('w, 'z) Env_scheme) outcome" where
  "call_handler handler message env =
     (case handler message (world env) of
        Returned u w \<Rightarrow> Returned u (env\<lparr>world := w\<rparr>)
      | Threw e w \<Rightarrow> Threw e (env\<lparr>world := w\<rparr>))"

text \<open>
  The same method in \<^verbatim>\<open>DroidBackend\<close> and \<^verbatim>\<open>OpencodeBackend\<close>:
  \<^verbatim>\<open>
  private emit(message: AgentMessage): void {
      for (const handler of this.messageHandlers) {
          try { handler(message); }
          catch (e) { logger.debug('[droid] Handler error:', e); }
      }
  }
  onMessage(handler: AgentMessageHandler): void { this.messageHandlers.push(handler); }
  offMessage(handler: AgentMessageHandler): void {
      const index = this.messageHandlers.indexOf(handler);
      if (index !== -1) { this.messageHandlers.splice(index, 1); }
  }
  \<close>
  The loop runs over the array itself, so what a handler does to the array while it runs
  is seen by the loop. A handler is a function object: the array holds references,
  which are numbers here, and \<open>closures\<close> gives the function behind each. A call of a
  handler leaves the changes it made to the array through \<^verbatim>\<open>offMessage\<close> and
  \<^verbatim>\<open>onMessage\<close>, in order, and the world, also when it throws. (\<^verbatim>\<open>dispose\<close> assigns a
  new, empty array to the field and leaves the array under the iterator as it is, so
  for the loop it changes nothing.)
\<close>

datatype ArrayOp = OffMessage nat | OnMessage nat

type_synonym 'w Closure = "AgentMessage \<Rightarrow> 'w \<Rightarrow> (unit, ArrayOp list \<times> 'w) outcome"

fun apply_op :: "ArrayOp \<Rightarrow> nat list \<Rightarrow> nat list" where
  "apply_op (OnMessage handler) array = array @ [handler]"
| "apply_op (OffMessage handler) array = remove1 handler array"

definition call_closure ::
  "'w Closure \<Rightarrow> AgentMessage \<Rightarrow> nat list \<times> ('w, 'z) Env_scheme
     \<Rightarrow> (unit, nat list \<times> ('w, 'z) Env_scheme) outcome" where
  "call_closure handler message s =
     (case handler message (world (snd s)) of
        Returned u (ops, w) \<Rightarrow> Returned u (fold apply_op ops (fst s), (snd s)\<lparr>world := w\<rparr>)
      | Threw e (ops, w) \<Rightarrow> Threw e (fold apply_op ops (fst s), (snd s)\<lparr>world := w\<rparr>))"

text \<open>
  The loop \<^verbatim>\<open>for (const handler of this.messageHandlers)\<close>: the iterator keeps an index,
  compares it with the current length, takes the element at the index and moves on
  before the body runs. A handler that registers handlers without end keeps the loop
  running for ever; the first argument bounds the number of iterations, and \<open>None\<close> says
  that the bound was reached.
\<close>

fun for_of_handlers ::
  "nat \<Rightarrow> (nat \<Rightarrow> 'w Closure) \<Rightarrow> AgentMessage \<Rightarrow> nat \<Rightarrow> nat list \<times> ('w, 'z) Env_scheme
     \<Rightarrow> (unit, nat list \<times> ('w, 'z) Env_scheme) outcome option" where
  "for_of_handlers 0 closures message i s = None"
| "for_of_handlers (Suc fuel) closures message i s =
     (if i < length (fst s) then
        (case try_catch (call_closure (closures (fst s ! i)) message s)
                (\<lambda>e s'. Returned () (fst s', logger_debug HandlerError (snd s'))) of
           Returned u s' \<Rightarrow> for_of_handlers fuel closures message (Suc i) s'
         | Threw e s' \<Rightarrow> Some (Threw e s'))
      else Some (Returned () s))"

definition emit ::
  "nat \<Rightarrow> (nat \<Rightarrow> 'w Closure) \<Rightarrow> AgentMessage \<Rightarrow> nat list \<times> ('w, 'z) Env_scheme
     \<Rightarrow> (unit, nat list \<times> ('w, 'z) Env_scheme) outcome option" where
  "emit fuel closures message s =
     for_of_handlers fuel closures message 0
       (fst s, (snd s)\<lparr>emitted := emitted (snd s) @ [message]\<rparr>)"

text \<open>
  The handlers that \<^verbatim>\<open>runDroid\<close> and \<^verbatim>\<open>runOpencode\<close> register only act on the world
  and never touch the array: an \<open>AgentMessageHandler\<close> is such a handler, and
  \<open>observing\<close> is the closure it stands for. For a list of such handlers the loop is the
  plain loop over the list (\<open>emit_of_observers\<close> below), and this is the form in which
  the two backends are modelled.
\<close>

definition observing :: "'w AgentMessageHandler \<Rightarrow> 'w Closure" where
  "observing handler message w =
     (case handler message w of
        Returned u w' \<Rightarrow> Returned u ([], w')
      | Threw e w' \<Rightarrow> Threw e ([], w'))"

fun for_observers ::
  "'w AgentMessageHandler list \<Rightarrow> AgentMessage \<Rightarrow> ('w, 'z) Env_scheme
     \<Rightarrow> (unit, ('w, 'z) Env_scheme) outcome" where
  "for_observers [] message env = Returned () env"
| "for_observers (handler # rest) message env =
     and_then
       (try_catch (call_handler handler message env)
          (\<lambda>e env'. Returned () (logger_debug HandlerError env')))
       (\<lambda>_. for_observers rest message)"

definition emit_to_observers ::
  "'w AgentMessageHandler list \<Rightarrow> AgentMessage \<Rightarrow> ('w, 'z) Env_scheme
     \<Rightarrow> (unit, ('w, 'z) Env_scheme) outcome" where
  "emit_to_observers handlers message env =
     for_observers handlers message (env\<lparr>emitted := emitted env @ [message]\<rparr>)"

section \<open>The process-exec client (DroidClient) and its types\<close>

datatype DroidOutputFormat = Text | Json | StreamJson | StreamJsonRpc

fun outputFormat_string :: "DroidOutputFormat \<Rightarrow> string" where
  "outputFormat_string Text = ''text''"
| "outputFormat_string Json = ''json''"
| "outputFormat_string StreamJson = ''stream-json''"
| "outputFormat_string StreamJsonRpc = ''stream-jsonrpc''"

datatype DroidAutoLevel = Low | Medium | High

fun autoLevel_string :: "DroidAutoLevel \<Rightarrow> string" where
  "autoLevel_string Low = ''low''"
| "autoLevel_string Medium = ''medium''"
| "autoLevel_string High = ''high''"

text \<open>
  \<^verbatim>\<open>
  export function permissionModeToAutoLevel(mode: DroidPermissionMode): DroidAutoLevel | undefined {
      switch (mode) {
          case 'default':
          case 'read-only': return undefined;
          case 'safe-yolo': return 'low';
          case 'yolo':      return 'high';
          default:          return undefined;
      }
  }
  \<close>
\<close>

fun permissionModeToAutoLevel :: "PermissionMode \<Rightarrow> DroidAutoLevel option" where
  "permissionModeToAutoLevel Default = None"
| "permissionModeToAutoLevel ReadOnly = None"
| "permissionModeToAutoLevel SafeYolo = Some Low"
| "permissionModeToAutoLevel Yolo = Some High"

text \<open>
  \<^verbatim>\<open>DroidExecOptions\<close>; an absent field is \<open>None\<close>. The fields \<^verbatim>\<open>cwd\<close>, \<^verbatim>\<open>auto\<close>
  and \<^verbatim>\<open>file\<close> are \<open>execCwd\<close>, \<open>autoLevel\<close> and \<open>promptFile\<close> here.
\<close>

record DroidExecOptions =
  outputFormat :: "DroidOutputFormat option"
  inputFormat :: "string option"
  autoLevel :: "DroidAutoLevel option"
  sessionId :: "string option"
  model :: "string option"
  execCwd :: "string option"
  useSpec :: bool
  specModel :: "string option"
  enabledTools :: "string list option"
  promptFile :: "string option"

definition no_options :: DroidExecOptions where
  "no_options =
     \<lparr>outputFormat = None, inputFormat = None, autoLevel = None, sessionId = None,
      model = None, execCwd = None, useSpec = False, specModel = None,
      enabledTools = None, promptFile = None\<rparr>"

text \<open>
  A call of \<^verbatim>\<open>spawn(command, args, { env, cwd })\<close>, which also stands for the child
  process it starts: the command line, the variable added to the inherited environment,
  and the working directory.
\<close>

record SpawnCall =
  command :: string
  args :: "string list"
  envAdded :: "string \<times> string"
  cwd :: string

text \<open>\<^verbatim>\<open>export const FACTORY_API_KEY_ENV = 'FACTORY_API_KEY';\<close>\<close>

definition FACTORY_API_KEY_ENV :: string where
  "FACTORY_API_KEY_ENV = ''FACTORY_API_KEY''"

text \<open>
  One record for a \<^verbatim>\<open>DroidBackend\<close> together with the \<^verbatim>\<open>DroidClient\<close> it owns and the
  surroundings of both. Of the client: \<open>apiKey\<close>, \<open>defaultModel\<close>, \<open>defaultCwd\<close>,
  \<open>currentProcess\<close>. Of the backend: \<open>messageHandlers\<close>, \<open>currentSessionId\<close>,
  \<open>droidSessionId\<close>, \<open>auto\<close> (here \<open>backendAuto\<close>), \<open>permissionMode\<close>, \<open>isRunning\<close>.
  \<open>signals\<close> lists the signals sent to child processes.
\<close>

record 'w DroidState = "'w Env" +
  apiKey :: string
  defaultModel :: string
  defaultCwd :: string
  currentProcess :: "SpawnCall option"
  signals :: "(SpawnCall \<times> string) list"
  messageHandlers :: "'w AgentMessageHandler list"
  currentSessionId :: "string option"
  droidSessionId :: "string option"
  backendAuto :: "DroidAutoLevel option"
  permissionMode :: PermissionMode
  isRunning :: bool

text \<open>
  \<^verbatim>\<open>
  private buildArgs(prompt: string, options: DroidExecOptions): string[] {
      const args = ['exec'];
      args.push('-o', options.outputFormat || 'json');
      if (options.inputFormat) { args.push('--input-format', options.inputFormat); }
      if (options.auto) { args.push('--auto', options.auto); }
      if (options.sessionId) { args.push('-s', options.sessionId); }
      const model = options.model || this.defaultModel;
      args.push('-m', model);
      if (options.useSpec) {
          args.push('--use-spec');
          if (options.specModel) { args.push('--spec-model', options.specModel); }
      }
      if (options.enabledTools?.length) {
          args.push('--enabled-tools', options.enabledTools.join(','));
      }
      if (options.file) { args.push('-f', options.file); }
      else { args.push(prompt); }
      return args;
  }
  \<close>
  Each \<open>a\<^sub>i\<close> is \<^verbatim>\<open>args\<close> after the \<open>i\<close>-th statement.
\<close>

definition buildArgs :: "'w DroidState \<Rightarrow> string \<Rightarrow> DroidExecOptions \<Rightarrow> string list" where
  "buildArgs this prompt options =
     (let a0 = [''exec''];
          a1 = a0 @ [''-o'', (case outputFormat options of
                                None \<Rightarrow> ''json'' | Some f \<Rightarrow> outputFormat_string f)];
          a2 = (if truthy (inputFormat options)
                then a1 @ [''--input-format'', js_or_str (inputFormat options) []] else a1);
          a3 = (case autoLevel options of
                  None \<Rightarrow> a2 | Some l \<Rightarrow> a2 @ [''--auto'', autoLevel_string l]);
          a4 = (if truthy (sessionId options)
                then a3 @ [''-s'', js_or_str (sessionId options) []] else a3);
          a5 = a4 @ [''-m'', js_or_str (model options) (defaultModel this)];
          a6 = (if useSpec options
                then (if truthy (specModel options)
                      then a5 @ [''--use-spec'', ''--spec-model'', js_or_str (specModel options) []]
                      else a5 @ [''--use-spec''])
                else a5);
          a7 = (case enabledTools options of
                  None \<Rightarrow> a6
                | Some tools \<Rightarrow>
                    if tools \<noteq> [] then a6 @ [''--enabled-tools'', js_join (CHR '','') tools]
                    else a6)
      in if truthy (promptFile options) then a7 @ [''-f'', js_or_str (promptFile options) []]
         else a7 @ [prompt])"

text \<open>
  The call of \<^verbatim>\<open>spawn\<close> in \<^verbatim>\<open>execStream\<close>:
  \<^verbatim>\<open>
  const args = this.buildArgs(prompt, { ...options, outputFormat: 'stream-json' });
  const droid = spawn('droid', args, {
      env: { ...process.env, [FACTORY_API_KEY_ENV]: this.apiKey },
      cwd: options.cwd || this.defaultCwd
  });
  \<close>
\<close>

definition execStream_spawn :: "'w DroidState \<Rightarrow> string \<Rightarrow> DroidExecOptions \<Rightarrow> SpawnCall" where
  "execStream_spawn this prompt options =
     \<lparr>command = ''droid'',
      args = buildArgs this prompt (options\<lparr>outputFormat := Some StreamJson\<rparr>),
      envAdded = (FACTORY_API_KEY_ENV, apiKey this),
      cwd = js_or_str (execCwd options) (defaultCwd this)\<rparr>"

subsection \<open>Stream events\<close>

datatype Role = User | Assistant

text \<open>
  What \<^verbatim>\<open>JSON.parse(line) as DroidStreamEvent\<close> can give: one of the five event types
  with the fields the code reads, \<^verbatim>\<open>null\<close>, or any other JSON value (\<open>UnknownEvent\<close>),
  whose \<^verbatim>\<open>type\<close> matches no case.
\<close>

datatype DroidStreamEvent =
    SystemEvent string "string list" string string
  | MessageEvent Role string
  | ToolCallEvent string string jsval
  | ToolResultEvent string string jsval
  | CompletionEvent string nat nat
  | UnknownEvent
  | JsonNull

text \<open>
  \<^verbatim>\<open>JSON.parse\<close> is a parameter of the model: \<open>None\<close> when it throws a SyntaxError.
\<close>

type_synonym json_parse = "string \<Rightarrow> DroidStreamEvent option"

text \<open>\<^verbatim>\<open>typeof v === 'string' ? v : undefined\<close> and \<^verbatim>\<open>typeof v === 'string' ? v : JSON.stringify(v)\<close>.\<close>

fun string_or_undefined :: "jsval \<Rightarrow> string option" where
  "string_or_undefined (JString s) = Some s"
| "string_or_undefined (JOther t) = None"

fun string_or_stringify :: "jsval \<Rightarrow> string" where
  "string_or_stringify (JString s) = s"
| "string_or_stringify (JOther t) = t"

definition droid_emit :: "AgentMessage \<Rightarrow> 'w DroidState \<Rightarrow> (unit, 'w DroidState) outcome" where
  "droid_emit message this = emit_to_observers (messageHandlers this) message this"

text \<open>
  \<^verbatim>\<open>DroidBackend.handleStreamEvent\<close>, one equation per \<^verbatim>\<open>case\<close> of
  \<^verbatim>\<open>switch (event.type)\<close>. Reading \<^verbatim>\<open>event.type\<close> of \<^verbatim>\<open>null\<close> throws a TypeError.
  \<^verbatim>\<open>
  case 'system':
      this.droidSessionId = event.session_id;
      this.emit({ type: 'event', name: 'system-init', payload: { sessionId, tools, model, cwd } });
  case 'message':
      if (event.role === 'assistant') {
          this.emit({ type: 'model-output', textDelta: event.text, fullText: event.text });
      }
  case 'tool_call':
      this.emit({ type: 'tool-call', toolName: event.toolName, args: event.parameters, callId: event.id });
  case 'tool_result':
      this.emit({ type: 'tool-result', toolName: event.toolId, result: event.value, callId: event.id });
      if (event.toolId === 'Write' || event.toolId === 'Edit' || event.toolId === 'ApplyPatch'
              || event.toolId === 'MultiEdit') {
          this.emit({ type: 'fs-edit', description: `File modified by ${event.toolId}`,
              diff: typeof event.value === 'string' ? event.value : undefined });
      }
      if (event.toolId === 'Execute') {
          this.emit({ type: 'terminal-output',
              data: typeof event.value === 'string' ? event.value : JSON.stringify(event.value) });
      }
  case 'completion':
      if (event.finalText) { this.emit({ type: 'model-output', fullText: event.finalText }); }
      this.emit({ type: 'token-count', numTurns: event.numTurns, durationMs: event.durationMs });
  \<close>
\<close>

fun handleStreamEvent ::
  "DroidStreamEvent \<Rightarrow> 'w DroidState \<Rightarrow> (unit, 'w DroidState) outcome" where
  "handleStreamEvent (SystemEvent session_id tools mdl dir) this =
     droid_emit (SystemInit session_id tools mdl dir) (this\<lparr>droidSessionId := Some session_id\<rparr>)"
| "handleStreamEvent (MessageEvent role text) this =
     (if role = Assistant then droid_emit (ModelOutput (Some text) (Some text)) this
      else Returned () this)"
| "handleStreamEvent (ToolCallEvent eid toolName parameters) this =
     droid_emit (ToolCall toolName parameters eid) this"
| "handleStreamEvent (ToolResultEvent eid toolId val) this =
     and_then (droid_emit (ToolResult toolId val eid) this) (\<lambda>_ this1.
     and_then
       (if toolId = ''Write'' \<or> toolId = ''Edit'' \<or> toolId = ''ApplyPatch'' \<or> toolId = ''MultiEdit''
        then droid_emit (FsEdit (''File modified by '' @ toolId) (string_or_undefined val) None) this1
        else Returned () this1) (\<lambda>_ this2.
     if toolId = ''Execute''
     then droid_emit (TerminalOutput (string_or_stringify val)) this2
     else Returned () this2))"
| "handleStreamEvent (CompletionEvent finalText numTurns durationMs) this =
     and_then
       (if finalText \<noteq> [] then droid_emit (ModelOutput None (Some finalText)) this
        else Returned () this) (\<lambda>_ this1.
     droid_emit (TokenCount numTurns durationMs) this1)"
| "handleStreamEvent UnknownEvent this = Returned () this"
| "handleStreamEvent JsonNull this = Threw (ErrorObj ''TypeError'') this"

subsection \<open>execStream\<close>

text \<open>
  The variables of one call of \<^verbatim>\<open>execStream\<close>:
  \<^verbatim>\<open>let finalText = ''; let buffer = ''; let stderr = '';\<close>
\<close>

record StreamVars =
  finalText :: string
  buffer :: string
  stderr :: string

definition initial_vars :: StreamVars where
  "initial_vars = \<lparr>finalText = [], buffer = [], stderr = []\<rparr>"

type_synonym 'w onEvent = "DroidStreamEvent \<Rightarrow> 'w DroidState \<Rightarrow> (unit, 'w DroidState) outcome"

text \<open>
  What both handlers do with a parsed event, inside their \<^verbatim>\<open>try\<close>:
  \<^verbatim>\<open>
  onEvent(event);
  if (event.type === 'completion') { finalText = event.finalText; }
  \<close>
\<close>

definition deliver_event ::
  "'w onEvent \<Rightarrow> DroidStreamEvent \<Rightarrow> StreamVars \<times> 'w DroidState
     \<Rightarrow> (unit, StreamVars \<times> 'w DroidState) outcome" where
  "deliver_event onEvent event s =
     (case onEvent event (snd s) of
        Threw e this \<Rightarrow> Threw e (fst s, this)
      | Returned u this \<Rightarrow>
          (case event of
             JsonNull \<Rightarrow> Threw (ErrorObj ''TypeError'') (fst s, this)
           | CompletionEvent text numTurns durationMs \<Rightarrow>
               Returned () ((fst s)\<lparr>finalText := text\<rparr>, this)
           | _ \<Rightarrow> Returned () (fst s, this)))"

definition parse_and_deliver ::
  "json_parse \<Rightarrow> 'w onEvent \<Rightarrow> string \<Rightarrow> StreamVars \<times> 'w DroidState
     \<Rightarrow> (unit, StreamVars \<times> 'w DroidState) outcome" where
  "parse_and_deliver parse onEvent text s =
     (case parse text of
        None \<Rightarrow> Threw (ErrorObj ''SyntaxError'') s
      | Some event \<Rightarrow> deliver_event onEvent event s)"

text \<open>
  The body of the loop over the complete lines:
  \<^verbatim>\<open>
  if (!line.trim()) continue;
  try { const event = JSON.parse(line) as DroidStreamEvent; onEvent(event); ... }
  catch (e) { logger.debug('[droid] Failed to parse event:', line.substring(0, 100)); }
  \<close>
\<close>

definition stream_line ::
  "json_parse \<Rightarrow> 'w onEvent \<Rightarrow> string \<Rightarrow> StreamVars \<times> 'w DroidState
     \<Rightarrow> StreamVars \<times> 'w DroidState" where
  "stream_line parse onEvent line s =
     (if js_trim line = [] then s
      else state_of
        (try_catch (parse_and_deliver parse onEvent line s)
           (\<lambda>e (v, this). Returned () (v, logger_debug (FailedToParseEvent (take 100 line)) this))))"

text \<open>
  \<^verbatim>\<open>
  droid.stdout.on('data', (data) => {
      buffer += data.toString();
      const lines = buffer.split('\n');
      buffer = lines.pop() || '';
      for (const line of lines) { ... }
  });
  \<close>
\<close>

definition onStdoutData ::
  "json_parse \<Rightarrow> 'w onEvent \<Rightarrow> string \<Rightarrow> StreamVars \<times> 'w DroidState
     \<Rightarrow> StreamVars \<times> 'w DroidState" where
  "onStdoutData parse onEvent data s =
     (let lines = js_split (CHR 0x0A) (buffer (fst s) @ data);
          popped = (if lines = [] then [] else last lines)
      in fold (stream_line parse onEvent) (butlast lines) ((fst s)\<lparr>buffer := popped\<rparr>, snd s))"

text \<open>\<^verbatim>\<open>droid.stderr.on('data', (data) => { stderr += data.toString(); ... });\<close>\<close>

definition onStderrData :: "string \<Rightarrow> StreamVars \<times> 'w DroidState \<Rightarrow> StreamVars \<times> 'w DroidState" where
  "onStderrData data s = ((fst s)\<lparr>stderr := stderr (fst s) @ data\<rparr>, snd s)"

text \<open>Decimal digits, for the exit code in the error message; \<^verbatim>\<open>null\<close> for a signal.\<close>

fun show_nat :: "nat \<Rightarrow> string" where
  "show_nat n =
     (if n < 10 then [char_of (48 + n)]
      else show_nat (n div 10) @ [char_of (48 + n mod 10)])"

definition show_code :: "int option \<Rightarrow> string" where
  "show_code code =
     (case code of
        None \<Rightarrow> ''null''
      | Some i \<Rightarrow> if i < 0 then CHR ''-'' # show_nat (nat (- i)) else show_nat (nat i))"

text \<open>
  \<^verbatim>\<open>
  droid.on('close', (code) => {
      this.currentProcess = null;
      if (buffer.trim()) {
          try { const event = JSON.parse(buffer) as DroidStreamEvent; onEvent(event); ... }
          catch (e) { /* Ignore parse errors for incomplete data */ }
      }
      if (code !== 0) {
          reject(new Error(`Droid stream exited with code ${code}: ${stderr || 'Unknown error'}`));
      } else {
          resolve(finalText);
      }
  });
  \<close>
  The outcome is the settled promise: \<open>Returned\<close> when resolved, \<open>Threw\<close> when rejected.
\<close>

definition onClose ::
  "json_parse \<Rightarrow> 'w onEvent \<Rightarrow> int option \<Rightarrow> StreamVars \<times> 'w DroidState
     \<Rightarrow> (string, StreamVars \<times> 'w DroidState) outcome" where
  "onClose parse onEvent code s =
     (let s1 = (fst s, (snd s)\<lparr>currentProcess := None\<rparr>);
          s2 = (if js_trim (buffer (fst s1)) \<noteq> []
                then state_of
                  (try_catch (parse_and_deliver parse onEvent (buffer (fst s1)) s1)
                     (\<lambda>e s'. Returned () s'))
                else s1)
      in if code \<noteq> Some 0
         then Threw
           (ErrorObj (''Droid stream exited with code '' @ show_code code @ '': ''
              @ (if stderr (fst s2) \<noteq> [] then stderr (fst s2) else ''Unknown error'')))
           s2
         else Returned (finalText (fst s2)) s2)"

text \<open>
  \<^verbatim>\<open>
  droid.on('error', (err) => {
      this.currentProcess = null;
      reject(new Error(`Failed to spawn droid: ${err.message}`));
  });
  \<close>
\<close>

definition onError ::
  "string \<Rightarrow> StreamVars \<times> 'w DroidState \<Rightarrow> (string, StreamVars \<times> 'w DroidState) outcome" where
  "onError message s =
     Threw (ErrorObj (''Failed to spawn droid: '' @ message))
       (fst s, (snd s)\<lparr>currentProcess := None\<rparr>)"

text \<open>
  \<^verbatim>\<open>
  cancel(): boolean {
      if (this.currentProcess) {
          logger.debug('[droid] Cancelling current process');
          this.currentProcess.kill('SIGTERM');
          this.currentProcess = null;
          return true;
      }
      return false;
  }
  \<close>
\<close>

definition client_cancel :: "'w DroidState \<Rightarrow> bool \<times> 'w DroidState" where
  "client_cancel this =
     (case currentProcess this of
        Some proc \<Rightarrow>
          (True, (logger_debug CancellingCurrentProcess this)
                   \<lparr>currentProcess := None, signals := signals this @ [(proc, ''SIGTERM'')]\<rparr>)
      | None \<Rightarrow> (False, this))"

section \<open>The process-exec backend (DroidBackend)\<close>

text \<open>
  \<^verbatim>\<open>
  async cancel(sessionId: SessionId): Promise<void> {
      const cancelled = this.client.cancel();
      if (cancelled) {
          this.isRunning = false;
          this.emit({ type: 'status', status: 'stopped' });
      }
  }
  \<close>
\<close>

definition droid_cancel :: "'w DroidState \<Rightarrow> (unit, 'w DroidState) outcome" where
  "droid_cancel this =
     (let (cancelled, this1) = client_cancel this
      in if cancelled then droid_emit (StatusMsg Stopped None) (this1\<lparr>isRunning := False\<rparr>)
         else Returned () this1)"

text \<open>
  \<^verbatim>\<open>DroidBackendOptions\<close>, with its fields prefixed by \<open>opt\<close>, and the constructors of
  the backend and of its client:
  \<^verbatim>\<open>
  constructor(options: DroidClientOptions) {
      this.apiKey = options.apiKey;
      this.defaultModel = options.defaultModel || DEFAULT_DROID_MODEL;
      this.defaultCwd = options.cwd || process.cwd();
  }
  constructor(options: DroidBackendOptions) {
      this.client = new DroidClient({ apiKey: ..., defaultModel: ..., cwd: ... });
      this.permissionMode = options.permissionMode || 'default';
      this.auto = options.auto || permissionModeToAutoLevel(this.permissionMode);
  }
  \<close>
  The first two arguments are \<^verbatim>\<open>process.cwd()\<close> and the world of the handlers.
\<close>

definition DEFAULT_DROID_MODEL :: string where
  "DEFAULT_DROID_MODEL = ''claude-sonnet-4-5-20250929''"

record DroidBackendOptions =
  optApiKey :: string
  optDefaultModel :: "string option"
  optCwd :: "string option"
  optAuto :: "DroidAutoLevel option"
  optPermissionMode :: "PermissionMode option"

definition new_DroidBackend :: "string \<Rightarrow> 'w \<Rightarrow> DroidBackendOptions \<Rightarrow> 'w DroidState" where
  "new_DroidBackend process_cwd w options =
     (let mode = (case optPermissionMode options of None \<Rightarrow> Default | Some m \<Rightarrow> m)
      in \<lparr>world = w, debugLog = [], emitted = [],
          apiKey = optApiKey options,
          defaultModel = js_or_str (optDefaultModel options) DEFAULT_DROID_MODEL,
          defaultCwd = js_or_str (optCwd options) process_cwd,
          currentProcess = None, signals = [], messageHandlers = [],
          currentSessionId = None, droidSessionId = None,
          backendAuto = (case optAuto options of
                           None \<Rightarrow> permissionModeToAutoLevel mode
                         | Some level \<Rightarrow> Some level),
          permissionMode = mode, isRunning = False\<rparr>)"

text \<open>
  \<^verbatim>\<open>
  setPermissionMode(mode: DroidPermissionMode): void {
      this.permissionMode = mode;
      this.auto = permissionModeToAutoLevel(mode);
  }
  \<close>
\<close>

definition setPermissionMode :: "PermissionMode \<Rightarrow> 'w DroidState \<Rightarrow> 'w DroidState" where
  "setPermissionMode mode this =
     this\<lparr>permissionMode := mode, backendAuto := permissionModeToAutoLevel mode\<rparr>"

text \<open>
  What happens between the \<^verbatim>\<open>spawn\<close> of \<^verbatim>\<open>execStream\<close> and the end of the child
  process: data arrives on its standard output or on its standard error, the driver
  calls \<^verbatim>\<open>DroidBackend.cancel\<close>, or the driver does something else to the world of
  the handlers (\<open>DriverStep\<close>; a user message is queued, a message is sent). The
  process ends with a \<^verbatim>\<open>close\<close> event, whose exit code is \<^verbatim>\<open>null\<close> when a signal
  ended it, or fails to start with an \<^verbatim>\<open>error\<close> event.
\<close>

datatype 'w InFlight =
    StdoutData string
  | StderrData string
  | CancelCall
  | DriverStep "'w \<Rightarrow> 'w"

datatype Ending = ProcessClose "int option" | ProcessError string

fun in_flight ::
  "json_parse \<Rightarrow> 'w onEvent \<Rightarrow> 'w InFlight \<Rightarrow> StreamVars \<times> 'w DroidState
     \<Rightarrow> StreamVars \<times> 'w DroidState" where
  "in_flight parse onEvent (StdoutData data) s = onStdoutData parse onEvent data s"
| "in_flight parse onEvent (StderrData data) s = onStderrData data s"
| "in_flight parse onEvent CancelCall s = (fst s, state_of (droid_cancel (snd s)))"
| "in_flight parse onEvent (DriverStep f) s = (fst s, (snd s)\<lparr>world := f (world (snd s))\<rparr>)"

fun without_vars :: "('a, StreamVars \<times> 's) outcome \<Rightarrow> ('a, 's) outcome" where
  "without_vars (Returned a s) = Returned a (snd s)"
| "without_vars (Threw e s) = Threw e (snd s)"

text \<open>
  \<^verbatim>\<open>DroidClient.execStream\<close> from the call to the settled promise:
  \<^verbatim>\<open>
  const droid = spawn('droid', args, { ... });
  this.currentProcess = droid;
  let finalText = ''; let buffer = ''; let stderr = '';
  droid.stdout.on('data', ...); droid.stderr.on('data', ...);
  droid.on('close', ...); droid.on('error', ...);
  \<close>
\<close>

definition execStream ::
  "json_parse \<Rightarrow> 'w onEvent \<Rightarrow> string \<Rightarrow> DroidExecOptions \<Rightarrow> 'w InFlight list \<Rightarrow> Ending
     \<Rightarrow> 'w DroidState \<Rightarrow> (string, 'w DroidState) outcome" where
  "execStream parse onEvent prompt options happenings ending this =
     (let droid = execStream_spawn this prompt options;
          s0 = (initial_vars, this\<lparr>currentProcess := Some droid\<rparr>);
          s1 = fold (in_flight parse onEvent) happenings s0
      in without_vars
           (case ending of
              ProcessClose code \<Rightarrow> onClose parse onEvent code s1
            | ProcessError message \<Rightarrow> onError message s1))"

text \<open>\<^verbatim>\<open>error instanceof Error ? error.message : 'Unknown error'\<close>\<close>

fun error_detail :: "exn \<Rightarrow> string" where
  "error_detail (ErrorObj message) = message"
| "error_detail OtherThrown = ''Unknown error''"

text \<open>
  \<^verbatim>\<open>
  async sendPrompt(sessionId: SessionId, prompt: string): Promise<void> {
      this.emit({ type: 'status', status: 'running' });
      this.isRunning = true;
      const options: DroidExecOptions = { auto: this.auto };
      if (this.droidSessionId) { options.sessionId = this.droidSessionId; }
      try {
          await this.client.execStream(prompt, (event) => this.handleStreamEvent(event), options);
          this.isRunning = false;
          this.emit({ type: 'status', status: 'idle' });
      } catch (error) {
          this.isRunning = false;
          this.emit({ type: 'status', status: 'error',
              detail: error instanceof Error ? error.message : 'Unknown error' });
          throw error;
      }
  }
  \<close>
\<close>

definition sendPrompt_options :: "'w DroidState \<Rightarrow> DroidExecOptions" where
  "sendPrompt_options this =
     (let options = no_options\<lparr>autoLevel := backendAuto this\<rparr>
      in if truthy (droidSessionId this) then options\<lparr>sessionId := droidSessionId this\<rparr>
         else options)"

definition droid_sendPrompt ::
  "json_parse \<Rightarrow> string \<Rightarrow> 'w InFlight list \<Rightarrow> Ending \<Rightarrow> 'w DroidState
     \<Rightarrow> (unit, 'w DroidState) outcome" where
  "droid_sendPrompt parse prompt happenings ending this =
     and_then (droid_emit (StatusMsg Running None) this) (\<lambda>_ this1.
       let this2 = this1\<lparr>isRunning := True\<rparr>;
           options = sendPrompt_options this2
       in try_catch
            (and_then (execStream parse handleStreamEvent prompt options happenings ending this2)
               (\<lambda>_ this3. droid_emit (StatusMsg Idle None) (this3\<lparr>isRunning := False\<rparr>)))
            (\<lambda>error this3.
               and_then
                 (droid_emit (StatusMsg Error (Some (error_detail error)))
                    (this3\<lparr>isRunning := False\<rparr>))
                 (\<lambda>_ this4. Threw error this4)))"

text \<open>
  The abort handler of \<^verbatim>\<open>runDroid\<close>, as what happens during an invocation:
  \<^verbatim>\<open>
  async function handleAbort() {
      session.sendCodexMessage({ type: 'turn_aborted', id: randomUUID() });
      try { messageQueue.reset(); await droidBackend.cancel(response.id); }
      catch (error) { ... }
  }
  \<close>
\<close>

definition handleAbort :: "Driver InFlight list" where
  "handleAbort =
     [DriverStep (\<lambda>d. (sendCodexMessage TurnAborted d)\<lparr>queueSize := 0\<rparr>), CancelCall]"

section \<open>The server-stream backend (OpencodeBackend)\<close>

text \<open>
  The requests the backend has its \<^verbatim>\<open>OpencodeClient\<close> send, and what \<^verbatim>\<open>fetch\<close> gives
  for one: a response, with its \<^verbatim>\<open>ok\<close> flag, or a thrown error.
\<close>

datatype HttpCall =
    AbortSession string
  | PermissionResponse string string bool
  | PromptRequest string string
  | SubscribeToEvents
  | CreateSession string

datatype FetchResult = Responded bool | FetchFailed string

text \<open>
  The parts of a message response; an absent field is \<open>None\<close>. The client's
  \<^verbatim>\<open>sendPrompt\<close> gives a response with its parts or throws; a response without a list
  of parts makes \<^verbatim>\<open>processMessageResponse\<close> throw inside the same \<^verbatim>\<open>try\<close> and counts
  as a failure here.
\<close>

datatype OpencodePart =
    TextPart "string option"
  | ToolCallPart "string option" "jsval option" "string option"
  | ToolResultPart "string option" jsval "string option"
  | OtherPart

datatype PromptResult = PromptParts "OpencodePart list" | PromptFailed exn

text \<open>
  An \<^verbatim>\<open>OpencodeBackend\<close> with its surroundings. The fields \<^verbatim>\<open>messageHandlers\<close>,
  \<^verbatim>\<open>permissionMode\<close> and \<^verbatim>\<open>isRunning\<close> are prefixed with \<open>oc_\<close> here; \<open>httpCalls\<close>
  lists the requests sent.
\<close>

record 'w OpencodeState = "'w Env" +
  oc_messageHandlers :: "'w AgentMessageHandler list"
  happySessionId :: "string option"
  opencodeSessionId :: "string option"
  oc_permissionMode :: PermissionMode
  oc_isRunning :: bool
  eventSubscriptionActive :: bool
  httpCalls :: "HttpCall list"

definition opencode_emit ::
  "AgentMessage \<Rightarrow> 'w OpencodeState \<Rightarrow> (unit, 'w OpencodeState) outcome" where
  "opencode_emit message this = emit_to_observers (oc_messageHandlers this) message this"

text \<open>
  \<^verbatim>\<open>
  async cancel(sessionId: SessionId): Promise<void> {
      if (this.opencodeSessionId) {
          await this.client.abortSession(this.opencodeSessionId);
      }
      this.isRunning = false;
      this.emit({ type: 'status', status: 'stopped' });
  }
  \<close>
  The first argument is what \<^verbatim>\<open>fetch\<close> gives for the abort request, if one is sent.
\<close>

definition opencode_cancel ::
  "FetchResult \<Rightarrow> 'w OpencodeState \<Rightarrow> (unit, 'w OpencodeState) outcome" where
  "opencode_cancel response this =
     and_then
       (case opencodeSessionId this of
          None \<Rightarrow> Returned () this
        | Some sid \<Rightarrow>
            if sid = [] then Returned () this
            else (case response of
                    Responded ok \<Rightarrow> Returned () (this\<lparr>httpCalls := httpCalls this @ [AbortSession sid]\<rparr>)
                  | FetchFailed message \<Rightarrow>
                      Threw (ErrorObj message) (this\<lparr>httpCalls := httpCalls this @ [AbortSession sid]\<rparr>)))
       (\<lambda>_ this1. opencode_emit (StatusMsg Stopped None) (this1\<lparr>oc_isRunning := False\<rparr>))"

text \<open>
  \<^verbatim>\<open>
  async respondToPermission(requestId: string, approved: boolean): Promise<void> {
      if (!this.opencodeSessionId) {
          logger.debug('[opencode] No session for permission response');
          return;
      }
      await this.client.respondToPermission(this.opencodeSessionId, requestId, approved);
  }
  \<close>
\<close>

definition opencode_respondToPermission ::
  "FetchResult \<Rightarrow> string \<Rightarrow> bool \<Rightarrow> 'w OpencodeState \<Rightarrow> (unit, 'w OpencodeState) outcome" where
  "opencode_respondToPermission response requestId approved this =
     (if \<not> truthy (opencodeSessionId this)
      then Returned () (logger_debug NoSessionForPermissionResponse this)
      else
        (let this1 = this\<lparr>httpCalls := httpCalls this
                       @ [PermissionResponse (js_or_str (opencodeSessionId this) []) requestId approved]\<rparr>
         in case response of
              Responded ok \<Rightarrow> Returned () this1
            | FetchFailed message \<Rightarrow> Threw (ErrorObj message) this1))"

text \<open>
  \<^verbatim>\<open>randomUUID()\<close>: of the fresh identifier the model keeps only that it is one.
\<close>

definition randomUUID :: string where
  "randomUUID = ''uuid''"

text \<open>
  \<^verbatim>\<open>OpencodeBackend.processMessageResponse\<close>: for each part,
  \<^verbatim>\<open>
  case 'text':
      if (part.text) { this.emit({ type: 'model-output', fullText: part.text }); }
  case 'tool_call':
      this.emit({ type: 'tool-call', toolName: part.toolName || 'unknown',
          args: part.args || {}, callId: part.toolCallId || randomUUID() });
  case 'tool_result':
      const toolName = part.toolName || 'unknown';
      this.emit({ type: 'tool-result', toolName, result: part.result, callId: part.toolCallId || '' });
      if (toolName === 'write' || toolName === 'edit') { this.emit({ type: 'fs-edit', ... }); }
      if (toolName === 'bash') { this.emit({ type: 'terminal-output', ... }); }
  \<close>
\<close>

fun processPart :: "OpencodePart \<Rightarrow> 'w OpencodeState \<Rightarrow> (unit, 'w OpencodeState) outcome" where
  "processPart (TextPart text) this =
     (if truthy text then opencode_emit (ModelOutput None text) this else Returned () this)"
| "processPart (ToolCallPart toolName arguments toolCallId) this =
     opencode_emit
       (ToolCall (js_or_str toolName ''unknown'')
          (or_empty_object arguments)
          (js_or_str toolCallId randomUUID)) this"
| "processPart (ToolResultPart name result toolCallId) this =
     (let toolName = js_or_str name ''unknown'' in
      and_then (opencode_emit (ToolResult toolName result (js_or_str toolCallId [])) this) (\<lambda>_ this1.
      and_then
        (if toolName = ''write'' \<or> toolName = ''edit''
         then opencode_emit
                (FsEdit (''File modified by '' @ toolName) (string_or_undefined result) None) this1
         else Returned () this1) (\<lambda>_ this2.
      if toolName = ''bash''
      then opencode_emit (TerminalOutput (string_or_stringify result)) this2
      else Returned () this2)))"
| "processPart OtherPart this = Returned () this"

fun processMessageResponse ::
  "OpencodePart list \<Rightarrow> 'w OpencodeState \<Rightarrow> (unit, 'w OpencodeState) outcome" where
  "processMessageResponse [] this = Returned () this"
| "processMessageResponse (part # parts) this =
     and_then (processPart part this) (\<lambda>_. processMessageResponse parts)"

text \<open>
  The events of the server's event stream, by the \<^verbatim>\<open>type\<close> that \<^verbatim>\<open>handleEvent\<close>
  switches on, with the properties it reads; an absent property is \<open>None\<close>.
  \<^item> \<open>MessageStreamEvent content\<close>: \<^verbatim>\<open>message.created\<close>, \<^verbatim>\<open>message.updated\<close>,
    \<^verbatim>\<open>message.delta\<close>;
  \<^item> \<open>ToolStartEvent name tool arguments args id\<close>: \<^verbatim>\<open>tool.called\<close>, \<^verbatim>\<open>tool.start\<close>;
  \<^item> \<open>ToolEndEvent name tool result id path\<close>: \<^verbatim>\<open>tool.result\<close>, \<^verbatim>\<open>tool.end\<close>;
  \<^item> \<open>PermissionEvent id reason message properties\<close>: \<^verbatim>\<open>permission.requested\<close>,
    \<^verbatim>\<open>permission.required\<close>;
  \<^item> \<open>SessionStatusEvent status message\<close>: \<^verbatim>\<open>session.status\<close>;
  \<^item> \<open>ErrorEvent message\<close>: \<^verbatim>\<open>error\<close>;
  \<^item> \<open>OtherEvent\<close>: any other type.
\<close>

datatype OpencodeEvent =
    MessageStreamEvent "string option"
  | ToolStartEvent "string option" "string option" "jsval option" "jsval option" "string option"
  | ToolEndEvent "string option" "string option" jsval "string option" "string option"
  | PermissionEvent string "string option" "string option" jsval
  | SessionStatusEvent string "string option"
  | ErrorEvent "string option"
  | OtherEvent

text \<open>
  \<^verbatim>\<open>
  private handleEvent(event: OpencodeEvent): void {
      switch (event.type) {
          case 'message.created': case 'message.updated': case 'message.delta':
              if (event.properties.content) {
                  this.emit({ type: 'model-output', textDelta: event.properties.content as string });
              }
              break;
          case 'tool.called': case 'tool.start':
              this.emit({ type: 'tool-call',
                  toolName: event.properties.name as string || event.properties.tool as string || 'unknown',
                  args: (event.properties.arguments || event.properties.args || {}) as ...,
                  callId: event.properties.id as string || randomUUID() });
              break;
          case 'tool.result': case 'tool.end':
              const toolName = event.properties.name as string || event.properties.tool as string || 'unknown';
              const result = event.properties.result;
              this.emit({ type: 'tool-result', toolName, result, callId: event.properties.id as string || '' });
              if (toolName === 'write' || toolName === 'edit') {
                  this.emit({ type: 'fs-edit', description: `File modified by ${toolName}`,
                      path: event.properties.path as string,
                      diff: typeof result === 'string' ? result : undefined });
              }
              if (toolName === 'bash') {
                  this.emit({ type: 'terminal-output',
                      data: typeof result === 'string' ? result : JSON.stringify(result) });
              }
              break;
          case 'permission.requested': case 'permission.required':
              this.emit({ type: 'permission-request', id: event.properties.id as string,
                  reason: event.properties.reason as string || event.properties.message as string
                      || 'Permission required',
                  payload: event.properties });
              break;
          case 'session.status':
              const status = event.properties.status as string;
              if (status === 'running') {
                  this.isRunning = true;
                  this.emit({ type: 'status', status: 'running' });
              } else if (status === 'idle' || status === 'completed') {
                  this.isRunning = false;
                  this.emit({ type: 'status', status: 'idle' });
              } else if (status === 'error') {
                  this.isRunning = false;
                  this.emit({ type: 'status', status: 'error', detail: event.properties.message as string });
              }
              break;
          case 'error':
              this.emit({ type: 'status', status: 'error',
                  detail: event.properties.message as string || 'Unknown error' });
              break;
      }
  }
  \<close>
\<close>

fun handleEvent :: "OpencodeEvent \<Rightarrow> 'w OpencodeState \<Rightarrow> (unit, 'w OpencodeState) outcome" where
  "handleEvent (MessageStreamEvent content) this =
     (if truthy content then opencode_emit (ModelOutput content None) this
      else Returned () this)"
| "handleEvent (ToolStartEvent name tool arguments arguments' eid) this =
     opencode_emit
       (ToolCall (js_or_str (js_or name tool) ''unknown'')
          (or_empty_object
             (case arguments of
                None \<Rightarrow> arguments'
              | Some a \<Rightarrow> if js_falsy a then arguments' else Some a))
          (js_or_str eid randomUUID)) this"
| "handleEvent (ToolEndEvent name tool result eid path) this =
     (let toolName = js_or_str (js_or name tool) ''unknown'' in
      and_then (opencode_emit (ToolResult toolName result (js_or_str eid [])) this) (\<lambda>_ this1.
      and_then
        (if toolName = ''write'' \<or> toolName = ''edit''
         then opencode_emit
                (FsEdit (''File modified by '' @ toolName) (string_or_undefined result) path) this1
         else Returned () this1) (\<lambda>_ this2.
      if toolName = ''bash''
      then opencode_emit (TerminalOutput (string_or_stringify result)) this2
      else Returned () this2)))"
| "handleEvent (PermissionEvent rid reason message properties) this =
     opencode_emit
       (PermissionRequest rid (js_or_str (js_or reason message) ''Permission required'') properties)
       this"
| "handleEvent (SessionStatusEvent status message) this =
     (if status = ''running''
      then opencode_emit (StatusMsg Running None) (this\<lparr>oc_isRunning := True\<rparr>)
      else if status = ''idle'' \<or> status = ''completed''
      then opencode_emit (StatusMsg Idle None) (this\<lparr>oc_isRunning := False\<rparr>)
      else if status = ''error''
      then opencode_emit (StatusMsg Error message) (this\<lparr>oc_isRunning := False\<rparr>)
      else Returned () this)"
| "handleEvent (ErrorEvent message) this =
     opencode_emit (StatusMsg Error (Some (js_or_str message ''Unknown error''))) this"
| "handleEvent OtherEvent this = Returned () this"

text \<open>
  \<^verbatim>\<open>
  private startEventSubscription(): void {
      if (this.eventSubscriptionActive) return;
      this.eventSubscriptionActive = true;
      this.client.subscribeToEvents((event) => { this.handleEvent(event); }).catch(...);
  }
  \<close>
\<close>

definition startEventSubscription :: "'w OpencodeState \<Rightarrow> 'w OpencodeState" where
  "startEventSubscription this =
     (if eventSubscriptionActive this then this
      else this\<lparr>eventSubscriptionActive := True,
                httpCalls := httpCalls this @ [SubscribeToEvents]\<rparr>)"

text \<open>
  What happens while a prompt request is pending: the driver calls \<^verbatim>\<open>cancel\<close>, with
  what \<^verbatim>\<open>fetch\<close> gives for its abort request, or the server sends an event, which
  reaches \<^verbatim>\<open>handleEvent\<close> when the subscription has been started. The client calls
  \<^verbatim>\<open>handleEvent\<close> inside a \<^verbatim>\<open>try\<close> and ignores what it throws.
\<close>

datatype OcInFlight = CancelCalled FetchResult | StreamEvent OpencodeEvent

fun oc_in_flight :: "OcInFlight \<Rightarrow> 'w OpencodeState \<Rightarrow> 'w OpencodeState" where
  "oc_in_flight (CancelCalled response) this = state_of (opencode_cancel response this)"
| "oc_in_flight (StreamEvent event) this =
     (if eventSubscriptionActive this then state_of (handleEvent event this) else this)"

text \<open>
  \<^verbatim>\<open>
  async sendPrompt(sessionId: SessionId, prompt: string): Promise<void> {
      if (!this.opencodeSessionId) { throw new Error('No OpenCode session active'); }
      this.emit({ type: 'status', status: 'running' });
      this.isRunning = true;
      try {
          const result = await this.client.sendPrompt(this.opencodeSessionId, prompt);
          this.processMessageResponse(result.parts);
          this.isRunning = false;
          this.emit({ type: 'status', status: 'idle' });
      } catch (error) {
          this.isRunning = false;
          this.emit({ type: 'status', status: 'error', detail: ... });
          throw error;
      }
  }
  \<close>
  While the request is pending, the driver may call \<^verbatim>\<open>cancel\<close> and the event
  subscription may deliver events to \<^verbatim>\<open>handleEvent\<close>: the third argument lists these
  happenings in order. The fourth is what the client's \<^verbatim>\<open>sendPrompt\<close> gives in the end.
\<close>

definition opencode_sendPrompt ::
  "string \<Rightarrow> OcInFlight list \<Rightarrow> PromptResult \<Rightarrow> 'w OpencodeState
     \<Rightarrow> (unit, 'w OpencodeState) outcome" where
  "opencode_sendPrompt prompt happenings result this =
     (if \<not> truthy (opencodeSessionId this)
      then Threw (ErrorObj ''No OpenCode session active'') this
      else
        and_then (opencode_emit (StatusMsg Running None) this) (\<lambda>_ this1.
          let this2 = this1\<lparr>oc_isRunning := True,
                        httpCalls := httpCalls this1
                          @ [PromptRequest (js_or_str (opencodeSessionId this1) []) prompt]\<rparr>;
              this3 = fold oc_in_flight happenings this2
          in try_catch
               (and_then
                  (case result of
                     PromptFailed error \<Rightarrow> Threw error this3
                   | PromptParts parts \<Rightarrow> processMessageResponse parts this3)
                  (\<lambda>_ this4. opencode_emit (StatusMsg Idle None) (this4\<lparr>oc_isRunning := False\<rparr>)))
               (\<lambda>error this4.
                  and_then
                    (opencode_emit (StatusMsg Error (Some (error_detail error)))
                       (this4\<lparr>oc_isRunning := False\<rparr>))
                    (\<lambda>_ this5. Threw error this5))))"

text \<open>
  \<^verbatim>\<open>
  async startSession(initialPrompt?: string): Promise<StartSessionResult> {
      await this.client.connect();
      this.startEventSubscription();
      const session = await this.client.createSession('Happy CLI Session');
      this.opencodeSessionId = session.id;
      this.happySessionId = randomUUID();
      this.emit({ type: 'status', status: 'starting' });
      if (initialPrompt) {
          try {
              this.isRunning = true;
              const result = await this.client.sendPrompt(session.id, initialPrompt);
              this.processMessageResponse(result.parts);
              this.isRunning = false;
          } catch (error) {
              this.isRunning = false;
              this.emit({ type: 'status', status: 'error', detail: ... });
              throw error;
          }
      }
      this.emit({ type: 'status', status: 'idle' });
      return { sessionId: this.happySessionId as SessionId };
  }
  \<close>
  The first two arguments are what \<^verbatim>\<open>connect\<close> and \<^verbatim>\<open>createSession\<close> give: an error
  thrown, or nothing and the id of the new session. The third is the initial prompt, if
  any, with what the client's \<^verbatim>\<open>sendPrompt\<close> gives for it.
\<close>

definition opencode_startSession ::
  "exn option \<Rightarrow> exn + string \<Rightarrow> (string \<times> PromptResult) option \<Rightarrow> 'w OpencodeState
     \<Rightarrow> (string, 'w OpencodeState) outcome" where
  "opencode_startSession connected created initialPrompt this =
     (case connected of
        Some error \<Rightarrow> Threw error this
      | None \<Rightarrow>
          (let this1 = startEventSubscription this;
               this2 = this1\<lparr>httpCalls := httpCalls this1 @ [CreateSession ''Happy CLI Session'']\<rparr>
           in case created of
                Inl error \<Rightarrow> Threw error this2
              | Inr sid \<Rightarrow>
                  and_then
                    (opencode_emit (StatusMsg Starting None)
                       (this2\<lparr>opencodeSessionId := Some sid, happySessionId := Some randomUUID\<rparr>))
                    (\<lambda>_ this3.
                  and_then
                    (case initialPrompt of
                       None \<Rightarrow> Returned () this3
                     | Some (prompt, result) \<Rightarrow>
                         if prompt = [] then Returned () this3
                         else
                           try_catch
                             (and_then
                                (case result of
                                   PromptFailed error \<Rightarrow>
                                     Threw error
                                       (this3\<lparr>oc_isRunning := True,
                                          httpCalls := httpCalls this3 @ [PromptRequest sid prompt]\<rparr>)
                                 | PromptParts parts \<Rightarrow>
                                     processMessageResponse parts
                                       (this3\<lparr>oc_isRunning := True,
                                          httpCalls := httpCalls this3 @ [PromptRequest sid prompt]\<rparr>))
                                (\<lambda>_ this4. Returned () (this4\<lparr>oc_isRunning := False\<rparr>)))
                             (\<lambda>error this4.
                                and_then
                                  (opencode_emit (StatusMsg Error (Some (error_detail error)))
                                     (this4\<lparr>oc_isRunning := False\<rparr>))
                                  (\<lambda>_ this5. Threw error this5)))
                    (\<lambda>_ this6.
                  and_then (opencode_emit (StatusMsg Idle None) this6)
                    (\<lambda>_ this7. Returned randomUUID this7)))))"

text \<open>A terminal status is \<^verbatim>\<open>idle\<close>, \<^verbatim>\<open>error\<close> or \<^verbatim>\<open>stopped\<close>.\<close>

fun is_terminal :: "AgentMessage \<Rightarrow> bool" where
  "is_terminal (StatusMsg status detail) = (status = Idle \<or> status = Error \<or> status = Stopped)"
| "is_terminal _ = False"

definition terminal_statuses :: "AgentMessage list \<Rightarrow> AgentMessage list" where
  "terminal_statuses messages = filter is_terminal messages"

section \<open>The availability probe and the version query\<close>

text \<open>
  Both spawn \<^verbatim>\<open>droid --version\<close> and return a promise that callbacks settle. What
  happens afterwards is a list of events of the child process, each with the time in
  milliseconds since the call, in the order in which their callbacks run. A timer set
  with \<^verbatim>\<open>setTimeout(f, ms)\<close> adds the event \<open>TimerFired\<close> at time \<open>ms\<close>, after the
  events that come earlier.
\<close>

datatype ProbeEvent = ProbeStdout string | ProbeClose "int option" | ProbeError | TimerFired

fun with_timer :: "nat \<Rightarrow> (nat \<times> ProbeEvent) list \<Rightarrow> (nat \<times> ProbeEvent) list" where
  "with_timer ms [] = [(ms, TimerFired)]"
| "with_timer ms ((t, e) # es) =
     (if t < ms then (t, e) # with_timer ms es else (ms, TimerFired) # (t, e) # es)"

text \<open>
  The promise (\<open>None\<close> while pending) with the time at which it was settled, the
  variable \<^verbatim>\<open>stdout\<close> of \<^verbatim>\<open>getVersion\<close>, and whether the child was killed.
\<close>

record 'a Probe =
  settled :: "(nat \<times> 'a) option"
  stdout :: string
  killed :: bool

definition new_probe :: "'a Probe" where
  "new_probe = \<lparr>settled = None, stdout = [], killed = False\<rparr>"

text \<open>\<^verbatim>\<open>resolve(v)\<close>: settles a pending promise and does nothing to a settled one.\<close>

definition resolve :: "nat \<Rightarrow> 'a \<Rightarrow> 'a Probe \<Rightarrow> 'a Probe" where
  "resolve now v p = (case settled p of None \<Rightarrow> p\<lparr>settled := Some (now, v)\<rparr> | Some r \<Rightarrow> p)"

text \<open>
  \<^verbatim>\<open>
  static async isAvailable(): Promise<boolean> {
      return new Promise((resolve) => {
          const droid = spawn('droid', ['--version'], { stdio: ['ignore', 'pipe', 'pipe'] });
          droid.on('close', (code) => resolve(code === 0));
          droid.on('error', () => resolve(false));
          setTimeout(() => { droid.kill(); resolve(false); }, 5000);
      });
  }
  \<close>
\<close>

fun isAvailable_callback :: "nat \<times> ProbeEvent \<Rightarrow> bool Probe \<Rightarrow> bool Probe" where
  "isAvailable_callback (now, ProbeClose code) p = resolve now (code = Some 0) p"
| "isAvailable_callback (now, ProbeError) p = resolve now False p"
| "isAvailable_callback (now, TimerFired) p = resolve now False (p\<lparr>killed := True\<rparr>)"
| "isAvailable_callback (now, ProbeStdout data) p = p"

definition isAvailable :: "(nat \<times> ProbeEvent) list \<Rightarrow> bool Probe" where
  "isAvailable events = fold isAvailable_callback (with_timer 5000 events) new_probe"

text \<open>
  \<^verbatim>\<open>
  static async getVersion(): Promise<string | null> {
      return new Promise((resolve) => {
          const droid = spawn('droid', ['--version'], { stdio: ['ignore', 'pipe', 'pipe'] });
          let stdout = '';
          droid.stdout.on('data', (data) => { stdout += data.toString(); });
          droid.on('close', (code) => {
              if (code === 0) { resolve(stdout.trim()); } else { resolve(null); }
          });
          droid.on('error', () => resolve(null));
      });
  }
  \<close>
  No timer is set, so the list of events is that of the child process alone.
\<close>

fun getVersion_callback :: "nat \<times> ProbeEvent \<Rightarrow> string option Probe \<Rightarrow> string option Probe" where
  "getVersion_callback (now, ProbeStdout data) p = p\<lparr>stdout := stdout p @ data\<rparr>"
| "getVersion_callback (now, ProbeClose code) p =
     (if code = Some 0 then resolve now (Some (js_trim (stdout p))) p else resolve now None p)"
| "getVersion_callback (now, ProbeError) p = resolve now None p"
| "getVersion_callback (now, TimerFired) p = p"

definition getVersion :: "(nat \<times> ProbeEvent) list \<Rightarrow> string option Probe" where
  "getVersion events = fold getVersion_callback events new_probe"

section \<open>Properties\<close>

subsection \<open>Auxiliary definitions and example states\<close>

text \<open>How many of the handlers throw on a message, each run on the world the earlier left.\<close>

fun thrown_count :: "'w AgentMessageHandler list \<Rightarrow> AgentMessage \<Rightarrow> 'w \<Rightarrow> nat" where
  "thrown_count [] message w = 0"
| "thrown_count (handler # rest) message w =
     (case handler message w of
        Returned u w' \<Rightarrow> thrown_count rest message w'
      | Threw e w' \<Rightarrow> Suc (thrown_count rest message w'))"

definition with_buffer :: "string \<Rightarrow> StreamVars \<times> 's \<Rightarrow> StreamVars \<times> 's" where
  "with_buffer b s = ((fst s)\<lparr>buffer := b\<rparr>, snd s)"

text \<open>Whether a call returned rather than threw.\<close>

fun returned :: "('a, 's) outcome \<Rightarrow> bool" where
  "returned (Returned a s) = True"
| "returned (Threw e s) = False"

text \<open>
  A step of a backend that emits no terminal status and leaves the child process handle
  and the handler list as they are.
\<close>

definition quiet :: "'w DroidState \<Rightarrow> 'w DroidState \<Rightarrow> bool" where
  "quiet this this' =
     (terminal_statuses (emitted this') = terminal_statuses (emitted this) \<and>
      currentProcess this' = currentProcess this \<and>
      messageHandlers this' = messageHandlers this)"

definition oc_quiet :: "'w OpencodeState \<Rightarrow> 'w OpencodeState \<Rightarrow> bool" where
  "oc_quiet this this' =
     (terminal_statuses (emitted this') = terminal_statuses (emitted this) \<and>
      oc_messageHandlers this' = oc_messageHandlers this)"

text \<open>What the last status of an invocation must be, given how the child process ended, and given what the server answered.\<close>

definition final_status :: "AgentMessage \<Rightarrow> Ending \<Rightarrow> bool" where
  "final_status message ending =
     (if ending = ProcessClose (Some 0) then message = StatusMsg Idle None
      else \<exists>detail. message = StatusMsg Error (Some detail))"

definition oc_final_status :: "AgentMessage \<Rightarrow> PromptResult \<Rightarrow> bool" where
  "oc_final_status message result =
     (case result of
        PromptParts parts \<Rightarrow> message = StatusMsg Idle None
      | PromptFailed error \<Rightarrow> message = StatusMsg Error (Some (error_detail error)))"

text \<open>
  How many of the handlers throw, for handlers given by their references; that no
  handler of an array changes the array, on whatever world it runs; and a store of
  handlers each of which records its reference in the world, the handler 0 also
  unregistering itself and throwing.
\<close>

fun closure_thrown_count :: "(nat \<Rightarrow> 'w Closure) \<Rightarrow> AgentMessage \<Rightarrow> nat list \<Rightarrow> 'w \<Rightarrow> nat" where
  "closure_thrown_count closures message [] w = 0"
| "closure_thrown_count closures message (handler # rest) w =
     (case closures handler message w of
        Returned u s \<Rightarrow> closure_thrown_count closures message rest (snd s)
      | Threw e s \<Rightarrow> Suc (closure_thrown_count closures message rest (snd s)))"

definition leaves_array :: "(nat \<Rightarrow> 'w Closure) \<Rightarrow> AgentMessage \<Rightarrow> nat list \<Rightarrow> bool" where
  "leaves_array closures message handlers =
     (\<forall>handler \<in> set handlers. \<forall>w. fst (state_of (closures handler message w)) = [])"

definition unregistering_closures :: "nat \<Rightarrow> nat list Closure" where
  "unregistering_closures handler message w =
     (if handler = 0 then Threw OtherThrown ([OffMessage 0], w @ [handler])
      else Returned () ([], w @ [handler]))"

text \<open>
  The events of the stream that make \<open>handleEvent\<close> emit a terminal status, and the
  happenings during a request that do not: an event of another kind.
\<close>

fun terminal_event :: "OpencodeEvent \<Rightarrow> bool" where
  "terminal_event (SessionStatusEvent status message) =
     (status = ''idle'' \<or> status = ''completed'' \<or> status = ''error'')"
| "terminal_event (ErrorEvent message) = True"
| "terminal_event _ = False"

fun undisturbed :: "OcInFlight \<Rightarrow> bool" where
  "undisturbed (CancelCalled response) = False"
| "undisturbed (StreamEvent event) = (\<not> terminal_event event)"

text \<open>A driver at start, with nothing sent yet.\<close>

definition example_driver :: Driver where
  "example_driver =
     \<lparr>shouldExit = False, thinking = False, isResponseInProgress = False,
      accumulatedResponse = [], currentPermissionMode = Default, queueSize = 0,
      sessionEvents = [], pushes = [], codexMessages = [], keepAlives = [],
      messageBuffer = [], backendCalls = []\<rparr>"

text \<open>
  The backends as the drivers set them up: one handler, the driver's, and no child
  process or session yet.
\<close>

definition example_droid :: "Driver DroidState" where
  "example_droid =
     \<lparr>world = example_driver, debugLog = [], emitted = [],
      apiKey = ''secret'', defaultModel = ''claude-sonnet-4-5-20250929'', defaultCwd = ''/work'',
      currentProcess = None, signals = [],
      messageHandlers = [\<lambda>message w. Returned () (droid_onMessage message w)],
      currentSessionId = None, droidSessionId = None, backendAuto = None,
      permissionMode = Default, isRunning = False\<rparr>"

definition example_opencode :: "Driver OpencodeState" where
  "example_opencode =
     \<lparr>world = example_driver, debugLog = [], emitted = [],
      oc_messageHandlers = [\<lambda>message w. Returned () (opencode_onMessage message w)],
      happySessionId = None, opencodeSessionId = None, oc_permissionMode = Default,
      oc_isRunning = False, eventSubscriptionActive = False, httpCalls = []\<rparr>"

text \<open>A server-stream backend after \<open>startSession\<close> without an initial prompt.\<close>

definition example_session :: "Driver OpencodeState" where
  "example_session =
     state_of (opencode_startSession None (Inr ''ses_1'') None example_opencode)"

text \<open>A stand-in for \<^verbatim>\<open>JSON.parse\<close> that knows four texts and rejects the rest.\<close>

definition example_parse :: json_parse where
  "example_parse line =
     (if line = ''{m}'' then Some (MessageEvent Assistant ''a.txt'')
      else if line = ''{c}'' then Some (CompletionEvent ''a.txt'' 1 5)
      else if line = ''null'' then Some JsonNull
      else if line = ''1'' then Some UnknownEvent
      else None)"

subsection \<open>Facts about splitting\<close>

lemma js_split_nonempty: "js_split c s \<noteq> []"
  by (induction s) (auto split: list.splits)

lemma length_js_split: "length (js_split c s) = Suc (count_list s c)"
proof (induction s)
  case Nil
  show ?case by simp
next
  case (Cons x xs)
  obtain p ps where "js_split c xs = p # ps"
    using js_split_nonempty [of c xs] by (cases "js_split c xs") auto
  with Cons show ?case by auto
qed

lemma js_join_js_split: "js_join c (js_split c s) = s"
proof (induction s)
  case Nil
  show ?case by simp
next
  case (Cons x xs)
  obtain p ps where split: "js_split c xs = p # ps"
    using js_split_nonempty [of c xs] by (cases "js_split c xs") auto
  show ?case
  proof (cases "x = c")
    case True
    with Cons split show ?thesis by simp
  next
    case False
    with Cons split show ?thesis by (cases ps) auto
  qed
qed

lemma two_parts_join:
  assumes "length ps = 2"
  shows "js_join c ps = ps ! 0 @ c # ps ! 1"
proof -
  from assms obtain a b where "ps = [a, b]"
    by (cases ps; cases "tl ps") auto
  then show ?thesis by simp
qed

text \<open>
  Claim C10. \<open>parseModelString\<close> returns a provider/model pair exactly when the input
  splits on the slash into exactly two pieces, which is exactly when it holds one slash,
  and returns null otherwise; and whenever the input holds exactly one slash,
  formatting the parsed pair gives the input back.
\<close>

theorem parseModelString_formatModelString:
  "(parseModelString s \<noteq> None \<longleftrightarrow> length (js_split (CHR ''/'') s) = 2) \<and>
   (parseModelString s = None \<longleftrightarrow> count_list s (CHR ''/'') \<noteq> 1) \<and>
   (count_list s (CHR ''/'') = 1 \<longrightarrow>
      (\<exists>m. parseModelString s = Some m \<and> formatModelString m = s))"
proof -
  have a: "parseModelString s \<noteq> None \<longleftrightarrow> length (js_split (CHR ''/'') s) = 2"
    by (simp add: parseModelString_def Let_def)
  have b: "parseModelString s = None \<longleftrightarrow> count_list s (CHR ''/'') \<noteq> 1"
    by (simp add: parseModelString_def Let_def length_js_split)
  have c: "\<exists>m. parseModelString s = Some m \<and> formatModelString m = s"
    if one: "count_list s (CHR ''/'') = 1"
  proof -
    let ?ps = "js_split (CHR ''/'') s"
    from one have len: "length ?ps = 2" by (simp add: length_js_split)
    then have "parseModelString s = Some \<lparr>providerID = ?ps ! 0, modelID = ?ps ! 1\<rparr>"
      by (simp add: parseModelString_def Let_def)
    moreover have "?ps ! 0 @ CHR ''/'' # ?ps ! 1 = s"
      using two_parts_join [OF len, of "CHR ''/''"] js_join_js_split [of "CHR ''/''" s]
      by simp
    ultimately show ?thesis by (simp add: formatModelString_def)
  qed
  from a b c show ?thesis by blast
qed

theorem parseModelString_formatModelString_witness:
  "count_list ''anthropic/claude'' (CHR ''/'') = 1 \<and>
   parseModelString ''anthropic/claude''
     = Some \<lparr>providerID = ''anthropic'', modelID = ''claude''\<rparr> \<and>
   formatModelString \<lparr>providerID = ''anthropic'', modelID = ''claude''\<rparr>
     = ''anthropic/claude''"
  using parseModelString_formatModelString [of "''anthropic/claude''"]
  by (simp add: parseModelString_def formatModelString_def)

subsection \<open>The readiness gate\<close>

text \<open>
  Claim C3. \<open>emitReadyIfIdle\<close> returns true, and sends the ready event and the push
  notification, exactly when the loop is not shutting down, not thinking, has no
  response in progress and the queue is empty. Otherwise it returns false and sends
  nothing; in particular when a prompt is queued, a response is in progress or the
  backend is thinking.
\<close>

theorem emitReadyIfIdle_gate:
  "fst (emitReadyIfIdle waiting d)
     = (\<not> shouldExit d \<and> \<not> thinking d \<and> \<not> isResponseInProgress d \<and> queueSize d = 0) \<and>
   snd (emitReadyIfIdle waiting d)
     = (if \<not> shouldExit d \<and> \<not> thinking d \<and> \<not> isResponseInProgress d \<and> queueSize d = 0
        then d\<lparr>sessionEvents := sessionEvents d @ [''ready''], pushes := pushes d @ [waiting]\<rparr>
        else d) \<and>
   (queueSize d > 0 \<or> isResponseInProgress d \<or> thinking d
      \<longrightarrow> emitReadyIfIdle waiting d = (False, d))"
  by (simp add: emitReadyIfIdle_def sendReady_def)

theorem emitReadyIfIdle_gate_witness:
  "queueSize (example_driver\<lparr>queueSize := 1\<rparr>) > 0 \<and>
   emitReadyIfIdle ''Droid is waiting for your command'' (example_driver\<lparr>queueSize := 1\<rparr>)
     = (False, example_driver\<lparr>queueSize := 1\<rparr>)"
  using emitReadyIfIdle_gate
    [of "''Droid is waiting for your command''" "example_driver\<lparr>queueSize := 1\<rparr>"]
  by (simp add: example_driver_def)

subsection \<open>Permission requests\<close>

text \<open>
  Claim C6. On a permission request the server-stream driver calls the backend's
  \<open>respondToPermission\<close> with approval exactly when the current mode is yolo or
  safe-yolo, and forwards the request to the session exactly when it is default or
  read-only; the two conditions exclude each other and one of them holds, so exactly one
  of the two happens. The backend passes an approval on to the permission endpoint of
  its session.
\<close>

theorem permission_request_auto_or_forward:
  "backendCalls (opencode_onMessage (PermissionRequest rid reason payload) d)
     = backendCalls d
       @ (if currentPermissionMode d = Yolo \<or> currentPermissionMode d = SafeYolo
          then [RespondToPermission rid True] else []) \<and>
   codexMessages (opencode_onMessage (PermissionRequest rid reason payload) d)
     = codexMessages d
       @ (if currentPermissionMode d = Default \<or> currentPermissionMode d = ReadOnly
          then [CodexPermissionRequest rid reason payload] else []) \<and>
   ((currentPermissionMode d = Yolo \<or> currentPermissionMode d = SafeYolo)
      \<noteq> (currentPermissionMode d = Default \<or> currentPermissionMode d = ReadOnly)) \<and>
   httpCalls (state_of (opencode_respondToPermission response rid True this))
     = httpCalls this
       @ (case opencodeSessionId this of
            None \<Rightarrow> []
          | Some sid \<Rightarrow> if sid = [] then [] else [PermissionResponse sid rid True])"
  by (cases "currentPermissionMode d"; cases "opencodeSessionId this"; cases response)
     (simp_all add: onPermissionRequest_def sendCodexMessage_def addMessage_def
        opencode_respondToPermission_def logger_debug_def js_or_str_def Let_def)

subsection \<open>The handler list\<close>

lemma for_observers_Returned:
  "for_observers handlers message env
     = Returned ()
         (env\<lparr>world := fold (\<lambda>handler w. state_of (handler message w)) handlers (world env),
              debugLog := debugLog env
                @ replicate (thrown_count handlers message (world env)) HandlerError\<rparr>)"
proof (induction handlers arbitrary: env)
  case Nil
  show ?case by simp
next
  case (Cons handler rest)
  show ?case
  proof (cases "handler message (world env)")
    case (Returned u w)
    then show ?thesis
      by (simp add: call_handler_def Cons)
  next
    case (Threw e w)
    then show ?thesis
      by (simp add: call_handler_def logger_debug_def Cons replicate_append_same)
  qed
qed

lemma emit_to_observers_Returned:
  "emit_to_observers handlers message env
     = Returned ()
         (env\<lparr>world := fold (\<lambda>handler w. state_of (handler message w)) handlers (world env),
              debugLog := debugLog env
                @ replicate (thrown_count handlers message (world env)) HandlerError,
              emitted := emitted env @ [message]\<rparr>)"
  by (simp add: emit_to_observers_def for_observers_Returned)

lemma for_of_handlers_never_throws:
  "for_of_handlers fuel closures message i s \<noteq> Some (Threw e s')"
proof (induction fuel arbitrary: i s)
  case 0
  show ?case by simp
next
  case (Suc fuel)
  show ?case
  proof (cases "i < length (fst s)")
    case False
    then show ?thesis by simp
  next
    case True
    show ?thesis
    proof (cases "call_closure (closures (fst s ! i)) message s")
      case (Returned u s1)
      with True Suc [of "Suc i" s1] show ?thesis by simp
    next
      case (Threw e1 s1)
      with True Suc [of "Suc i" "(fst s1, logger_debug HandlerError (snd s1))"] show ?thesis
        by simp
    qed
  qed
qed

lemma for_of_handlers_unchanged_array:
  assumes "leaves_array closures message array"
  shows "length array - i < fuel \<Longrightarrow>
    for_of_handlers fuel closures message i (array, env)
      = Some (Returned ()
          (array,
           env\<lparr>world := fold (\<lambda>handler w. snd (state_of (closures handler message w)))
                           (drop i array) (world env),
               debugLog := debugLog env
                 @ replicate (closure_thrown_count closures message (drop i array) (world env))
                     HandlerError\<rparr>))"
proof (induction fuel arbitrary: i env)
  case 0
  then show ?case by simp
next
  case (Suc fuel)
  show ?case
  proof (cases "i < length array")
    case False
    then show ?thesis by simp
  next
    case True
    then have d: "drop i array = array ! i # drop (Suc i) array"
      by (simp add: Cons_nth_drop_Suc)
    from True assms have noop: "fst (state_of (closures (array ! i) message w)) = []" for w
      by (simp add: leaves_array_def)
    from True Suc.prems have fuel: "length array - Suc i < fuel" by simp
    show ?thesis
    proof (cases "closures (array ! i) message (world env)")
      case (Returned u r)
      with noop [of "world env"] have r: "r = ([], snd r)" by (cases r) simp
      from Returned r have "call_closure (closures (array ! i)) message (array, env)
          = Returned u (array, env\<lparr>world := snd r\<rparr>)"
        by (cases r) (simp add: call_closure_def)
      with True Returned Suc.IH [OF fuel, of "env\<lparr>world := snd r\<rparr>"] d show ?thesis
        by simp
    next
      case (Threw e r)
      with noop [of "world env"] have r: "r = ([], snd r)" by (cases r) simp
      from Threw r have "call_closure (closures (array ! i)) message (array, env)
          = Threw e (array, env\<lparr>world := snd r\<rparr>)"
        by (cases r) (simp add: call_closure_def)
      with True Threw
        Suc.IH [OF fuel, of "logger_debug HandlerError (env\<lparr>world := snd r\<rparr>)"] d
      show ?thesis
        by (simp add: logger_debug_def replicate_append_same)
    qed
  qed
qed

text \<open>
  Claim C9, as amended. \<open>emit\<close> never throws, whatever the handlers do. When no
  registered handler changes the handler array while it runs, \<open>emit\<close> returns after
  one iteration per handler, leaves the array as it was, has run every handler on the
  message, in order, each on the world its predecessor left, whether that one returned or
  threw, and has written one log entry per throwing handler.
\<close>

theorem emit_isolates_handler_exceptions:
  "emit fuel closures message (handlers, env) \<noteq> Some (Threw e s) \<and>
   (leaves_array closures message handlers \<longrightarrow>
      emit (Suc (length handlers)) closures message (handlers, env)
        = Some (Returned ()
            (handlers,
             env\<lparr>world := fold (\<lambda>handler w. snd (state_of (closures handler message w)))
                             handlers (world env),
                 debugLog := debugLog env
                   @ replicate (closure_thrown_count closures message handlers (world env))
                       HandlerError,
                 emitted := emitted env @ [message]\<rparr>)))"
proof -
  have a: "emit fuel closures message (handlers, env) \<noteq> Some (Threw e s)"
    by (simp add: emit_def for_of_handlers_never_throws)
  have b: "emit (Suc (length handlers)) closures message (handlers, env)
        = Some (Returned ()
            (handlers,
             env\<lparr>world := fold (\<lambda>handler w. snd (state_of (closures handler message w)))
                             handlers (world env),
                 debugLog := debugLog env
                   @ replicate (closure_thrown_count closures message handlers (world env))
                       HandlerError,
                 emitted := emitted env @ [message]\<rparr>))"
    if "leaves_array closures message handlers"
    using for_of_handlers_unchanged_array
      [OF that, of 0 "Suc (length handlers)" "env\<lparr>emitted := emitted env @ [message]\<rparr>"]
    by (simp add: emit_def)
  from a b show ?thesis by blast
qed

text \<open>
  The claim as first stated fails: of three registered handlers, the first unregisters
  itself and throws; the array shrinks under the iterator, and the second handler is
  never called.
\<close>

theorem unregistering_handler_counterexample:
  "emit 10 unregistering_closures (TerminalOutput ''x'')
       ([0, 1, 2], \<lparr>world = [], debugLog = [], emitted = []\<rparr>)
     = Some (Returned ()
         ([1, 2], \<lparr>world = [0, 2], debugLog = [HandlerError],
                   emitted = [TerminalOutput ''x'']\<rparr>))"
  by (simp add: emit_def call_closure_def unregistering_closures_def logger_debug_def
      numeral_nat)

theorem emit_isolates_handler_exceptions_witness:
  "leaves_array (\<lambda>handler. observing (\<lambda>message w.
       if handler = 0 then Threw OtherThrown (w @ [handler]) else Returned () (w @ [handler])))
     (TerminalOutput ''x'') [0, 1, 2] \<and>
   emit 4 (\<lambda>handler. observing (\<lambda>message w.
       if handler = 0 then Threw OtherThrown (w @ [handler]) else Returned () (w @ [handler])))
     (TerminalOutput ''x'') ([0, 1, 2], \<lparr>world = [], debugLog = [], emitted = []\<rparr>)
     = Some (Returned ()
         ([0, 1, 2], \<lparr>world = [0, 1, 2], debugLog = [HandlerError],
                      emitted = [TerminalOutput ''x'']\<rparr>))"
  using emit_isolates_handler_exceptions
    [where closures = "\<lambda>handler. observing (\<lambda>message w.
       if handler = 0 then Threw OtherThrown (w @ [handler]) else Returned () (w @ [handler]))"
       and message = "TerminalOutput ''x''" and handlers = "[0, 1, 2]"
       and env = "\<lparr>world = [], debugLog = [], emitted = []\<rparr>"]
  by (simp add: leaves_array_def observing_def eval_nat_numeral)

text \<open>
  For handlers that only act on the world, the loop over the array is the plain loop
  over the list.
\<close>

lemma state_of_observing:
  "snd (state_of (observing handler message w)) = state_of (handler message w)"
  "fst (state_of (observing handler message w)) = []"
  by (cases "handler message w"; simp add: observing_def)+

lemma observing_Returned:
  "handler message w = Returned u w' \<Longrightarrow> observing handler message w = Returned u ([], w')"
  by (simp add: observing_def)

lemma observing_Threw:
  "handler message w = Threw e w' \<Longrightarrow> observing handler message w = Threw e ([], w')"
  by (simp add: observing_def)

lemma closure_thrown_count_observing:
  "closure_thrown_count (\<lambda>i. observing (g i)) message ids w
     = thrown_count (map g ids) message w"
proof (induction ids arbitrary: w)
  case Nil
  show ?case by simp
next
  case (Cons i ids)
  show ?case
    by (cases "g i message w") (simp_all add: observing_Returned observing_Threw Cons)
qed

lemma emit_of_observers:
  "emit (Suc (length handlers)) (\<lambda>i. observing (handlers ! i)) message
       ([0..<length handlers], env)
     = Some (Returned ()
         ([0..<length handlers], state_of (emit_to_observers handlers message env)))"
proof -
  let ?closures = "\<lambda>i. observing (handlers ! i)"
  let ?ids = "[0..<length handlers]"
  have l: "leaves_array ?closures message ?ids"
    by (simp add: leaves_array_def state_of_observing)
  have f: "fold (\<lambda>i w. snd (state_of (?closures i message w))) ?ids w
      = fold (\<lambda>handler w. state_of (handler message w)) handlers w" for w
  proof -
    have "fold (\<lambda>handler w. state_of (handler message w)) (map (nth handlers) ?ids) w
        = fold (\<lambda>i w. snd (state_of (?closures i message w))) ?ids w"
      by (simp add: fold_map comp_def state_of_observing)
    then show ?thesis by (simp add: map_nth)
  qed
  have t: "closure_thrown_count ?closures message ?ids w = thrown_count handlers message w" for w
    using closure_thrown_count_observing [of "nth handlers" message ?ids w]
    by (simp add: map_nth)
  from for_of_handlers_unchanged_array
    [OF l, of 0 "Suc (length handlers)" "env\<lparr>emitted := emitted env @ [message]\<rparr>"]
  show ?thesis
    by (simp add: emit_def emit_to_observers_Returned f t)
qed

subsection \<open>The command line of the subprocess\<close>

lemma buildArgs_shape:
  "\<exists>rest. buildArgs this prompt options
     = [''exec'', ''-o'',
         (case outputFormat options of None \<Rightarrow> ''json'' | Some f \<Rightarrow> outputFormat_string f)]
       @ (if truthy (inputFormat options)
          then [''--input-format'', js_or_str (inputFormat options) []] else [])
       @ (case autoLevel options of None \<Rightarrow> [] | Some l \<Rightarrow> [''--auto'', autoLevel_string l])
       @ (if truthy (sessionId options) then [''-s'', js_or_str (sessionId options) []] else [])
       @ [''-m'', js_or_str (model options) (defaultModel this)]
       @ rest"
  by (simp add: buildArgs_def Let_def split: option.split)

text \<open>
  Claim C7. The subprocess is \<open>droid\<close> with arguments that start with \<open>exec\<close>;
  \<open>execStream\<close> asks for the output format \<open>stream-json\<close>; then come, in this order,
  the input format if given, \<open>--auto\<close> with the level if one is set and nothing
  otherwise, \<open>-s\<close> with the session id if one is set, and \<open>-m\<close> with the model given or,
  failing that, the default model. The arguments do not depend on the API key, which is
  put into the environment of the child. The permission mode \<open>default\<close> maps to no
  level, and a prompt sent after that mode was set, or by a backend constructed in that
  mode with no level given, has no \<open>--auto\<close> among its arguments.
\<close>

theorem buildArgs_contract:
  "take 3 (args (execStream_spawn this prompt options)) = [''exec'', ''-o'', ''stream-json''] \<and>
   command (execStream_spawn this prompt options) = ''droid'' \<and>
   envAdded (execStream_spawn this prompt options) = (''FACTORY_API_KEY'', apiKey this) \<and>
   buildArgs (this\<lparr>apiKey := key\<rparr>) prompt options = buildArgs this prompt options \<and>
   (\<exists>rest. buildArgs this prompt options
      = [''exec'', ''-o'',
          (case outputFormat options of None \<Rightarrow> ''json'' | Some f \<Rightarrow> outputFormat_string f)]
        @ (if truthy (inputFormat options)
           then [''--input-format'', js_or_str (inputFormat options) []] else [])
        @ (case autoLevel options of None \<Rightarrow> [] | Some l \<Rightarrow> [''--auto'', autoLevel_string l])
        @ (if truthy (sessionId options) then [''-s'', js_or_str (sessionId options) []] else [])
        @ [''-m'', js_or_str (model options) (defaultModel this)]
        @ rest) \<and>
   permissionModeToAutoLevel Default = None \<and>
   args (execStream_spawn this prompt (sendPrompt_options (setPermissionMode Default this)))
     = [''exec'', ''-o'', ''stream-json'']
       @ (case droidSessionId this of
            None \<Rightarrow> []
          | Some sid \<Rightarrow> if sid = [] then [] else [''-s'', sid])
       @ [''-m'', defaultModel this, prompt] \<and>
   args (execStream_spawn
           (new_DroidBackend dir w (opts\<lparr>optAuto := None, optPermissionMode := Some Default\<rparr>))
           prompt
           (sendPrompt_options
              (new_DroidBackend dir w (opts\<lparr>optAuto := None, optPermissionMode := Some Default\<rparr>))))
     = [''exec'', ''-o'', ''stream-json'', ''-m'',
        js_or_str (optDefaultModel opts) DEFAULT_DROID_MODEL, prompt]"
proof -
  have a: "take 3 (args (execStream_spawn this prompt options)) = [''exec'', ''-o'', ''stream-json'']"
  proof -
    obtain tail where "buildArgs this prompt (options\<lparr>outputFormat := Some StreamJson\<rparr>)
        = [''exec'', ''-o'', ''stream-json''] @ tail"
      using buildArgs_shape [of this prompt "options\<lparr>outputFormat := Some StreamJson\<rparr>"]
      by auto
    then show ?thesis by (simp add: execStream_spawn_def)
  qed
  have b: "envAdded (execStream_spawn this prompt options) = (''FACTORY_API_KEY'', apiKey this)"
    by (simp add: execStream_spawn_def FACTORY_API_KEY_ENV_def)
  have c: "buildArgs (this\<lparr>apiKey := key\<rparr>) prompt options = buildArgs this prompt options"
    by (simp add: buildArgs_def)
  have d: "args (execStream_spawn this prompt (sendPrompt_options (setPermissionMode Default this)))
     = [''exec'', ''-o'', ''stream-json'']
       @ (case droidSessionId this of
            None \<Rightarrow> []
          | Some sid \<Rightarrow> if sid = [] then [] else [''-s'', sid])
       @ [''-m'', defaultModel this, prompt]"
    by (cases "droidSessionId this")
       (simp_all add: execStream_spawn_def buildArgs_def sendPrompt_options_def
          setPermissionMode_def no_options_def js_or_str_def Let_def)
  have e: "args (execStream_spawn
           (new_DroidBackend dir w (opts\<lparr>optAuto := None, optPermissionMode := Some Default\<rparr>))
           prompt
           (sendPrompt_options
              (new_DroidBackend dir w (opts\<lparr>optAuto := None, optPermissionMode := Some Default\<rparr>))))
     = [''exec'', ''-o'', ''stream-json'', ''-m'',
        js_or_str (optDefaultModel opts) DEFAULT_DROID_MODEL, prompt]"
    by (simp add: execStream_spawn_def buildArgs_def sendPrompt_options_def
        new_DroidBackend_def no_options_def js_or_str_def Let_def)
  show ?thesis
    using a b c d e buildArgs_shape [of this prompt options]
    by (simp add: execStream_spawn_def)
qed


subsection \<open>The stream reader\<close>

lemma js_split_no_separator: "c \<notin> set s \<Longrightarrow> js_split c s = [s]"
  by (induction s) auto

lemma last_js_split_no_separator: "c \<notin> set (last (js_split c s))"
proof (induction s)
  case Nil
  show ?case by simp
next
  case (Cons x xs)
  obtain p ps where split: "js_split c xs = p # ps"
    using js_split_nonempty [of c xs] by (cases "js_split c xs") auto
  with Cons show ?case by (cases ps) auto
qed

lemma js_split_append:
  "js_split c (xs @ ys)
     = butlast (js_split c xs) @ js_split c (last (js_split c xs) @ ys)"
proof (induction xs)
  case Nil
  show ?case by simp
next
  case (Cons x xs)
  obtain p ps where split: "js_split c xs = p # ps"
    using js_split_nonempty [of c xs] by (cases "js_split c xs") auto
  obtain q qs where split2: "js_split c (last (js_split c xs) @ ys) = q # qs"
    using js_split_nonempty [of c "last (js_split c xs) @ ys"]
    by (cases "js_split c (last (js_split c xs) @ ys)") auto
  show ?case
  proof (cases "x = c")
    case True
    with Cons split show ?thesis by simp
  next
    case False
    show ?thesis
    proof (cases ps)
      case Nil
      with False Cons split split2 show ?thesis by simp
    next
      case (Cons p' ps')
      with False Cons.IH split split2 show ?thesis by simp
    qed
  qed
qed

lemma butlast_last_js_split_append:
  "butlast (js_split c (xs @ ys))
     = butlast (js_split c xs) @ butlast (js_split c (last (js_split c xs) @ ys))"
  "last (js_split c (xs @ ys)) = last (js_split c (last (js_split c xs) @ ys))"
  using js_split_nonempty [of c "last (js_split c xs) @ ys"]
  by (simp_all add: js_split_append [of c xs ys] butlast_append)

lemma with_buffer_twice: "with_buffer b (with_buffer b' s) = with_buffer b s"
  by (simp add: with_buffer_def)

lemma buffer_with_buffer: "buffer (fst (with_buffer b s)) = b"
  by (simp add: with_buffer_def)

lemma deliver_event_with_buffer:
  "deliver_event onEvent event (with_buffer b s)
     = (case deliver_event onEvent event s of
          Returned u s' \<Rightarrow> Returned u (with_buffer b s')
        | Threw e s' \<Rightarrow> Threw e (with_buffer b s'))"
  by (cases "onEvent event (snd s)"; cases event)
     (simp_all add: deliver_event_def with_buffer_def)

lemma stream_line_with_buffer:
  "stream_line parse onEvent line (with_buffer b s)
     = with_buffer b (stream_line parse onEvent line s)"
proof (cases "parse line")
  case None
  then show ?thesis
    by (cases s) (simp add: stream_line_def parse_and_deliver_def with_buffer_def)
next
  case (Some event)
  then show ?thesis
    by (cases "deliver_event onEvent event s")
       (simp_all add: stream_line_def parse_and_deliver_def deliver_event_with_buffer
          split: prod.splits, simp_all add: with_buffer_def)
qed

lemma fold_stream_line_with_buffer:
  "fold (stream_line parse onEvent) lines (with_buffer b s)
     = with_buffer b (fold (stream_line parse onEvent) lines s)"
  by (induction lines arbitrary: s) (simp_all add: stream_line_with_buffer)

lemma onStdoutData_alt:
  "onStdoutData parse onEvent data s
     = with_buffer (last (js_split (CHR 0x0A) (buffer (fst s) @ data)))
         (fold (stream_line parse onEvent)
            (butlast (js_split (CHR 0x0A) (buffer (fst s) @ data))) s)"
  using fold_stream_line_with_buffer [of parse onEvent _ _ s, symmetric]
  by (simp add: onStdoutData_def Let_def js_split_nonempty with_buffer_def)

lemma onStdoutData_twice:
  "onStdoutData parse onEvent d2 (onStdoutData parse onEvent d1 s)
     = onStdoutData parse onEvent (d1 @ d2) s"
proof -
  let ?nl = "CHR 0x0A"
  let ?L = "stream_line parse onEvent"
  let ?l1 = "js_split ?nl (buffer (fst s) @ d1)"
  let ?l2 = "js_split ?nl (last ?l1 @ d2)"
  have "onStdoutData parse onEvent d2 (onStdoutData parse onEvent d1 s)
      = with_buffer (last ?l2) (fold ?L (butlast ?l2) (with_buffer (last ?l1) (fold ?L (butlast ?l1) s)))"
    by (simp add: onStdoutData_alt [of parse onEvent d2] onStdoutData_alt [of parse onEvent d1]
        buffer_with_buffer)
  also have "\<dots> = with_buffer (last ?l2) (fold ?L (butlast ?l1 @ butlast ?l2) s)"
    by (simp add: fold_stream_line_with_buffer with_buffer_twice)
  also have "\<dots> = onStdoutData parse onEvent (d1 @ d2) s"
    using butlast_last_js_split_append [of ?nl "buffer (fst s) @ d1" d2]
    by (simp add: onStdoutData_alt [of parse onEvent "d1 @ d2"])
  finally show ?thesis .
qed

lemma onStdoutData_empty:
  "CHR 0x0A \<notin> set (buffer (fst s)) \<Longrightarrow> onStdoutData parse onEvent [] s = s"
  by (simp add: onStdoutData_def js_split_no_separator)

lemma buffer_onStdoutData:
  "CHR 0x0A \<notin> set (buffer (fst (onStdoutData parse onEvent data s)))"
  by (simp add: onStdoutData_alt buffer_with_buffer last_js_split_no_separator)

lemma fold_onStdoutData:
  "CHR 0x0A \<notin> set (buffer (fst s)) \<Longrightarrow>
   fold (onStdoutData parse onEvent) chunks s = onStdoutData parse onEvent (concat chunks) s"
proof (induction chunks arbitrary: s)
  case Nil
  then show ?case by (simp add: onStdoutData_empty)
next
  case (Cons d ds)
  have "fold (onStdoutData parse onEvent) (d # ds) s
      = onStdoutData parse onEvent (concat ds) (onStdoutData parse onEvent d s)"
    using Cons.IH [OF buffer_onStdoutData] by simp
  then show ?case by (simp add: onStdoutData_twice)
qed


lemma onClose_resolves:
  "\<exists>text s'. onClose parse onEvent (Some 0) s = Returned text s'"
  by (simp add: onClose_def Let_def)

text \<open>
  Claim C4. However the standard output arrives in chunks, the data handler processes
  exactly the newline-terminated lines of the whole output, in order, and keeps the
  unterminated rest in the buffer. A line that is not blank and does not parse is logged
  and skipped, leaving everything else as it was, and the loop goes on with the next
  line. At the exit of the process the buffered rest is tried once: when it does not
  parse nothing is delivered or logged, when it parses it is delivered; and in both
  cases the promise is settled by the exit code alone, so an exit with code 0 always
  resolves.
\<close>

theorem execStream_line_buffering:
  "fold (onStdoutData parse onEvent) chunks (initial_vars, this)
     = (let lines = js_split (CHR 0x0A) (concat chunks)
        in fold (stream_line parse onEvent) (butlast lines)
             (initial_vars\<lparr>buffer := last lines\<rparr>, this)) \<and>
   (js_trim line \<noteq> [] \<and> parse line = None \<longrightarrow>
      stream_line parse onEvent line (v, this)
        = (v, logger_debug (FailedToParseEvent (take 100 line)) this)) \<and>
   (parse (buffer v) = None \<longrightarrow>
      onClose parse onEvent code (v, this)
        = (if code \<noteq> Some 0
           then Threw
             (ErrorObj (''Droid stream exited with code '' @ show_code code @ '': ''
                @ (if stderr v \<noteq> [] then stderr v else ''Unknown error'')))
             (v, this\<lparr>currentProcess := None\<rparr>)
           else Returned (finalText v) (v, this\<lparr>currentProcess := None\<rparr>))) \<and>
   (js_trim (buffer v) \<noteq> [] \<and>
    parse_and_deliver parse onEvent (buffer v) (v, this\<lparr>currentProcess := None\<rparr>)
      = Returned () s' \<longrightarrow>
      onClose parse onEvent (Some 0) (v, this) = Returned (finalText (fst s')) s') \<and>
   (\<exists>text s''. onClose parse onEvent (Some 0) s = Returned text s'')"
proof -
  have a: "fold (onStdoutData parse onEvent) chunks (initial_vars, this)
     = (let lines = js_split (CHR 0x0A) (concat chunks)
        in fold (stream_line parse onEvent) (butlast lines)
             (initial_vars\<lparr>buffer := last lines\<rparr>, this))"
    using fold_onStdoutData [of "(initial_vars, this)" parse onEvent chunks]
    by (simp add: initial_vars_def onStdoutData_def Let_def js_split_nonempty)
  have b: "stream_line parse onEvent line (v, this)
        = (v, logger_debug (FailedToParseEvent (take 100 line)) this)"
    if "js_trim line \<noteq> []" "parse line = None"
    using that by (simp add: stream_line_def parse_and_deliver_def)
  have c: "onClose parse onEvent code (v, this)
        = (if code \<noteq> Some 0
           then Threw
             (ErrorObj (''Droid stream exited with code '' @ show_code code @ '': ''
                @ (if stderr v \<noteq> [] then stderr v else ''Unknown error'')))
             (v, this\<lparr>currentProcess := None\<rparr>)
           else Returned (finalText v) (v, this\<lparr>currentProcess := None\<rparr>))"
    if "parse (buffer v) = None"
    using that by (simp add: onClose_def parse_and_deliver_def Let_def)
  have d: "onClose parse onEvent (Some 0) (v, this) = Returned (finalText (fst s')) s'"
    if "js_trim (buffer v) \<noteq> []"
       "parse_and_deliver parse onEvent (buffer v) (v, this\<lparr>currentProcess := None\<rparr>)
          = Returned () s'"
    using that by (simp add: onClose_def Let_def)
  from a b c d onClose_resolves [of parse onEvent s] show ?thesis by blast
qed

theorem execStream_line_buffering_witness:
  "js_trim ''oops'' \<noteq> [] \<and> example_parse ''oops'' = None \<and>
   stream_line example_parse handleStreamEvent ''oops''
       (initial_vars\<lparr>buffer := ''{m''\<rparr>, example_droid)
     = (initial_vars\<lparr>buffer := ''{m''\<rparr>,
        logger_debug (FailedToParseEvent ''oops'') example_droid) \<and>
   example_parse (buffer (initial_vars\<lparr>buffer := ''{m''\<rparr>)) = None \<and>
   onClose example_parse handleStreamEvent (Some 0)
       (initial_vars\<lparr>buffer := ''{m''\<rparr>, example_droid)
     = Returned [] (initial_vars\<lparr>buffer := ''{m''\<rparr>, example_droid) \<and>
   js_trim (buffer (initial_vars\<lparr>buffer := ''1''\<rparr>)) \<noteq> [] \<and>
   parse_and_deliver example_parse handleStreamEvent (buffer (initial_vars\<lparr>buffer := ''1''\<rparr>))
       (initial_vars\<lparr>buffer := ''1''\<rparr>, example_droid\<lparr>currentProcess := None\<rparr>)
     = Returned () (initial_vars\<lparr>buffer := ''1''\<rparr>, example_droid) \<and>
   onClose example_parse handleStreamEvent (Some 0)
       (initial_vars\<lparr>buffer := ''1''\<rparr>, example_droid)
     = Returned [] (initial_vars\<lparr>buffer := ''1''\<rparr>, example_droid) \<and>
   fold (onStdoutData example_parse handleStreamEvent) [''{m'', ''}'' @ [CHR 0x0A] @ ''{c'']
       (initial_vars, example_droid)
     = fold (stream_line example_parse handleStreamEvent) [''{m}'']
         (initial_vars\<lparr>buffer := ''{c''\<rparr>, example_droid)"
  using execStream_line_buffering
    [where parse = example_parse and onEvent = handleStreamEvent
       and chunks = "[''{m'', ''}'' @ [CHR 0x0A] @ ''{c'']"
       and this = example_droid and line = "''oops''"
       and v = "initial_vars\<lparr>buffer := ''{m''\<rparr>" and code = "Some 0"]
    execStream_line_buffering
    [where parse = example_parse and onEvent = handleStreamEvent
       and this = example_droid and v = "initial_vars\<lparr>buffer := ''1''\<rparr>"
       and s' = "(initial_vars\<lparr>buffer := ''1''\<rparr>, example_droid)"]
  by (simp add: example_parse_def js_trim_def js_whitespace_def initial_vars_def
      example_droid_def parse_and_deliver_def deliver_event_def)


subsection \<open>Terminal statuses of an invocation\<close>

lemma quiet_refl: "quiet this this"
  by (simp add: quiet_def)

lemma quiet_trans: "quiet a b \<Longrightarrow> quiet b c \<Longrightarrow> quiet a c"
  by (simp add: quiet_def)

lemma droid_emit_Returned:
  "droid_emit message this
     = Returned ()
         (this\<lparr>world := fold (\<lambda>handler w. state_of (handler message w)) (messageHandlers this) (world this),
               debugLog := debugLog this
                 @ replicate (thrown_count (messageHandlers this) message (world this)) HandlerError,
               emitted := emitted this @ [message]\<rparr>)"
  by (simp add: droid_emit_def emit_to_observers_Returned)

lemma droid_emit_quiet:
  "\<not> is_terminal message \<Longrightarrow>
   \<exists>this'. droid_emit message this = Returned () this' \<and> quiet this this'"
  by (simp add: droid_emit_Returned quiet_def terminal_statuses_def)

lemma handleStreamEvent_quiet: "quiet this (state_of (handleStreamEvent event this))"
  by (cases event)
     (simp_all add: droid_emit_Returned quiet_def terminal_statuses_def)

lemma deliver_event_quiet:
  "quiet (snd s) (snd (state_of (deliver_event handleStreamEvent event s)))"
  using handleStreamEvent_quiet [of "snd s" event]
  by (cases "handleStreamEvent event (snd s)"; cases event)
     (simp_all add: deliver_event_def)

lemma stream_line_quiet:
  "quiet (snd s) (snd (stream_line parse handleStreamEvent line s))"
proof (cases "parse line")
  case None
  then show ?thesis
    by (cases s)
       (simp add: stream_line_def parse_and_deliver_def logger_debug_def quiet_def)
next
  case (Some event)
  then show ?thesis
    using deliver_event_quiet [of s event]
    by (cases "deliver_event handleStreamEvent event s")
       (auto simp: stream_line_def parse_and_deliver_def logger_debug_def quiet_def)
qed

lemma fold_stream_line_quiet:
  "quiet (snd s) (snd (fold (stream_line parse handleStreamEvent) lines s))"
proof (induction lines arbitrary: s)
  case Nil
  show ?case by (simp add: quiet_refl)
next
  case (Cons line lines)
  show ?case
    using quiet_trans [OF stream_line_quiet [of s parse line]
        Cons [of "stream_line parse handleStreamEvent line s"]]
    by simp
qed

lemma onStdoutData_quiet:
  "quiet (snd s) (snd (onStdoutData parse handleStreamEvent data s))"
  using fold_stream_line_quiet [of "((fst s)\<lparr>buffer := b\<rparr>, snd s)" for b]
  by (simp add: onStdoutData_def Let_def)

lemma droid_cancel_idle:
  "currentProcess this = None \<Longrightarrow> droid_cancel this = Returned () this"
  by (simp add: droid_cancel_def client_cancel_def)

lemma droid_cancel_live:
  "currentProcess this = Some proc \<Longrightarrow>
   terminal_statuses (emitted (state_of (droid_cancel this)))
     = terminal_statuses (emitted this) @ [StatusMsg Stopped None] \<and>
   currentProcess (state_of (droid_cancel this)) = None \<and>
   messageHandlers (state_of (droid_cancel this)) = messageHandlers this"
  by (simp add: droid_cancel_def client_cancel_def droid_emit_Returned logger_debug_def
      terminal_statuses_def)

lemma droid_cancel_idempotent:
  "state_of (droid_cancel (state_of (droid_cancel this))) = state_of (droid_cancel this)"
proof (cases "currentProcess this")
  case None
  then show ?thesis by (simp add: droid_cancel_idle)
next
  case (Some proc)
  from droid_cancel_live [OF Some]
  show ?thesis by (simp add: droid_cancel_idle)
qed

lemma fold_in_flight:
  "terminal_statuses (emitted (snd (fold (in_flight parse handleStreamEvent) happenings s)))
     = terminal_statuses (emitted (snd s))
       @ (if CancelCall \<in> set happenings \<and> currentProcess (snd s) \<noteq> None
          then [StatusMsg Stopped None] else []) \<and>
   messageHandlers (snd (fold (in_flight parse handleStreamEvent) happenings s))
     = messageHandlers (snd s)"
proof (induction happenings arbitrary: s)
  case Nil
  show ?case by simp
next
  case (Cons h hs)
  let ?s1 = "in_flight parse handleStreamEvent h s"
  note IH = Cons [of ?s1]
  show ?case
  proof (cases h)
    case (StdoutData data)
    with onStdoutData_quiet [of s parse data] IH show ?thesis
      by (simp add: quiet_def)
  next
    case (StderrData data)
    with IH show ?thesis by (simp add: onStderrData_def)
  next
    case (DriverStep f)
    with IH show ?thesis by simp
  next
    case CancelCall
    show ?thesis
    proof (cases "currentProcess (snd s)")
      case None
      with CancelCall IH show ?thesis by (simp add: droid_cancel_idle)
    next
      case (Some proc)
      with CancelCall IH droid_cancel_live [OF Some] show ?thesis by simp
    qed
  qed
qed


lemma onClose_quiet:
  "terminal_statuses (emitted (snd (state_of (onClose parse handleStreamEvent code s))))
     = terminal_statuses (emitted (snd s)) \<and>
   messageHandlers (snd (state_of (onClose parse handleStreamEvent code s)))
     = messageHandlers (snd s)"
proof -
  let ?s1 = "(fst s, (snd s)\<lparr>currentProcess := None\<rparr>)"
  have "quiet (snd ?s1) (snd (state_of (deliver_event handleStreamEvent event ?s1)))" for event
    by (rule deliver_event_quiet)
  then have q: "terminal_statuses (emitted (snd (state_of (deliver_event handleStreamEvent event ?s1))))
        = terminal_statuses (emitted (snd s)) \<and>
      messageHandlers (snd (state_of (deliver_event handleStreamEvent event ?s1)))
        = messageHandlers (snd s)" for event
    by (simp add: quiet_def)
  show ?thesis
  proof (cases "parse (buffer (fst s))")
    case None
    then show ?thesis by (simp add: onClose_def parse_and_deliver_def Let_def)
  next
    case (Some event)
    with q [of event] show ?thesis
      by (cases "deliver_event handleStreamEvent event ?s1")
         (simp_all add: onClose_def parse_and_deliver_def Let_def)
  qed
qed

lemma onClose_returned:
  "returned (onClose parse onEvent code s) = (code = Some 0)"
  by (simp add: onClose_def Let_def)

lemma execStream_terminal:
  "terminal_statuses (emitted (state_of
       (execStream parse handleStreamEvent prompt options happenings ending this)))
     = terminal_statuses (emitted this)
       @ (if CancelCall \<in> set happenings then [StatusMsg Stopped None] else []) \<and>
   messageHandlers (state_of
       (execStream parse handleStreamEvent prompt options happenings ending this))
     = messageHandlers this \<and>
   returned (execStream parse handleStreamEvent prompt options happenings ending this)
     = (ending = ProcessClose (Some 0))"
proof -
  let ?s0 = "(initial_vars, this\<lparr>currentProcess := Some (execStream_spawn this prompt options)\<rparr>)"
  let ?s1 = "fold (in_flight parse handleStreamEvent) happenings ?s0"
  note f = fold_in_flight [of parse happenings ?s0]
  show ?thesis
  proof (cases ending)
    case (ProcessClose code)
    have "execStream parse handleStreamEvent prompt options happenings ending this
        = without_vars (onClose parse handleStreamEvent code ?s1)"
      by (simp add: execStream_def Let_def ProcessClose)
    with f onClose_quiet [of parse code ?s1] onClose_returned [of parse handleStreamEvent code ?s1]
    show ?thesis
      by (cases "onClose parse handleStreamEvent code ?s1") (simp_all add: ProcessClose)
  next
    case (ProcessError message)
    with f show ?thesis
      by (simp add: execStream_def Let_def onError_def)
  qed
qed

lemma droid_sendPrompt_terminal:
  "\<exists>final. final_status final ending \<and>
     terminal_statuses (emitted (state_of (droid_sendPrompt parse prompt happenings ending this)))
       = terminal_statuses (emitted this)
         @ (if CancelCall \<in> set happenings then [StatusMsg Stopped None] else [])
         @ [final] \<and>
     returned (droid_sendPrompt parse prompt happenings ending this)
       = (ending = ProcessClose (Some 0))"
proof -
  obtain this1 where e1: "droid_emit (StatusMsg Running None) this = Returned () this1"
    and q1: "quiet this this1"
    using droid_emit_quiet [of "StatusMsg Running None" this] by auto
  define this2 where "this2 = this1\<lparr>isRunning := True\<rparr>"
  define out where
    "out = execStream parse handleStreamEvent prompt (sendPrompt_options this2) happenings ending this2"
  have sp: "droid_sendPrompt parse prompt happenings ending this
      = try_catch
          (and_then out (\<lambda>_ this3. droid_emit (StatusMsg Idle None) (this3\<lparr>isRunning := False\<rparr>)))
          (\<lambda>error this3.
             and_then
               (droid_emit (StatusMsg Error (Some (error_detail error))) (this3\<lparr>isRunning := False\<rparr>))
               (\<lambda>_ this4. Threw error this4))"
    by (simp add: droid_sendPrompt_def e1 Let_def this2_def out_def)
  have x: "terminal_statuses (emitted (state_of out))
      = terminal_statuses (emitted this)
        @ (if CancelCall \<in> set happenings then [StatusMsg Stopped None] else [])"
    and r: "returned out = (ending = ProcessClose (Some 0))"
    using execStream_terminal [of parse prompt "sendPrompt_options this2" happenings ending this2] q1
    by (simp_all add: out_def this2_def quiet_def)
  show ?thesis
  proof (cases out)
    case (Returned final_text this3)
    with r have ending: "ending = ProcessClose (Some 0)" by simp
    from Returned x sp ending show ?thesis
      by (simp add: droid_emit_Returned terminal_statuses_def final_status_def)
  next
    case (Threw error this3)
    with r have ending: "ending \<noteq> ProcessClose (Some 0)" by simp
    from Threw x sp ending show ?thesis
      by (simp add: droid_emit_Returned terminal_statuses_def final_status_def)
  qed
qed

lemma opencode_emit_Returned:
  "opencode_emit message this
     = Returned ()
         (this\<lparr>world := fold (\<lambda>handler w. state_of (handler message w)) (oc_messageHandlers this) (world this),
               debugLog := debugLog this
                 @ replicate (thrown_count (oc_messageHandlers this) message (world this)) HandlerError,
               emitted := emitted this @ [message]\<rparr>)"
  by (simp add: opencode_emit_def emit_to_observers_Returned)

lemma processPart_quiet:
  "\<exists>this'. processPart part this = Returned () this' \<and> oc_quiet this this'"
  by (cases part)
     (simp_all add: opencode_emit_Returned oc_quiet_def terminal_statuses_def Let_def)

lemma processMessageResponse_quiet:
  "\<exists>this'. processMessageResponse parts this = Returned () this' \<and> oc_quiet this this'"
proof (induction parts arbitrary: this)
  case Nil
  show ?case by (simp add: oc_quiet_def)
next
  case (Cons part parts)
  obtain this1 where p: "processPart part this = Returned () this1" and q: "oc_quiet this this1"
    using processPart_quiet [of part this] by auto
  obtain this2 where r: "processMessageResponse parts this1 = Returned () this2"
    and q2: "oc_quiet this1 this2"
    using Cons [of this1] by auto
  from p q r q2 show ?case by (simp add: oc_quiet_def)
qed

lemma handleEvent_quiet:
  "\<not> terminal_event event \<Longrightarrow> oc_quiet this (state_of (handleEvent event this))"
  by (cases event)
     (simp_all add: opencode_emit_Returned oc_quiet_def terminal_statuses_def Let_def)

lemma fold_oc_in_flight_quiet:
  "list_all undisturbed happenings \<Longrightarrow> oc_quiet this (fold oc_in_flight happenings this)"
proof (induction happenings arbitrary: this)
  case Nil
  show ?case by (simp add: oc_quiet_def)
next
  case (Cons h hs)
  from Cons.prems have q: "oc_quiet this (oc_in_flight h this)"
    using handleEvent_quiet [of _ this]
    by (cases h) (auto simp: oc_quiet_def)
  from Cons.prems Cons.IH [of "oc_in_flight h this"] q show ?case
    by (simp add: oc_quiet_def)
qed

lemma opencode_sendPrompt_terminal:
  assumes "truthy (opencodeSessionId this)" and "list_all undisturbed happenings"
  shows "\<exists>final. oc_final_status final result \<and>
     terminal_statuses (emitted (state_of (opencode_sendPrompt prompt happenings result this)))
       = terminal_statuses (emitted this) @ [final]"
proof -
  obtain this1 where e1: "opencode_emit (StatusMsg Running None) this = Returned () this1"
    and t1: "terminal_statuses (emitted this1) = terminal_statuses (emitted this)"
    by (simp add: opencode_emit_Returned terminal_statuses_def)
  define this2 where
    "this2 = this1\<lparr>oc_isRunning := True,
               httpCalls := httpCalls this1
                 @ [PromptRequest (js_or_str (opencodeSessionId this1) []) prompt]\<rparr>"
  define this3 where "this3 = fold oc_in_flight happenings this2"
  have q3: "oc_quiet this2 this3"
    unfolding this3_def by (rule fold_oc_in_flight_quiet [OF assms(2)])
  have t2: "terminal_statuses (emitted this2) = terminal_statuses (emitted this)"
    by (simp add: this2_def t1)
  have sp: "opencode_sendPrompt prompt happenings result this
      = try_catch
          (and_then
             (case result of
                PromptFailed error \<Rightarrow> Threw error this3
              | PromptParts parts \<Rightarrow> processMessageResponse parts this3)
             (\<lambda>_ this4. opencode_emit (StatusMsg Idle None) (this4\<lparr>oc_isRunning := False\<rparr>)))
          (\<lambda>error this4.
             and_then
               (opencode_emit (StatusMsg Error (Some (error_detail error)))
                  (this4\<lparr>oc_isRunning := False\<rparr>))
               (\<lambda>_ this5. Threw error this5))"
    using assms(1)
    by (cases result) (simp_all add: opencode_sendPrompt_def Let_def e1 this2_def this3_def)
  show ?thesis
  proof (cases result)
    case (PromptFailed error)
    with sp q3 t2 show ?thesis
      by (simp add: opencode_emit_Returned terminal_statuses_def oc_final_status_def oc_quiet_def)
  next
    case (PromptParts parts)
    obtain this4 where r: "processMessageResponse parts this3 = Returned () this4"
      and q: "oc_quiet this3 this4"
      using processMessageResponse_quiet [of parts this3] by auto
    from sp r PromptParts have "opencode_sendPrompt prompt happenings result this
        = opencode_emit (StatusMsg Idle None) (this4\<lparr>oc_isRunning := False\<rparr>)"
      by (simp add: opencode_emit_Returned)
    with q q3 t2 show ?thesis
      by (simp add: opencode_emit_Returned oc_quiet_def terminal_statuses_def
          oc_final_status_def PromptParts)
  qed
qed

lemma example_session_fields:
  "opencodeSessionId example_session = Some ''ses_1''"
  "eventSubscriptionActive example_session"
  "emitted example_session = [StatusMsg Starting None, StatusMsg Idle None]"
  by (simp_all add: example_session_def opencode_startSession_def startEventSubscription_def
      opencode_emit_Returned example_opencode_def Let_def)

text \<open>
  Claim C1, as amended. An invocation of the process-exec backend during which
  \<open>cancel\<close> is not called emits exactly one terminal status: idle when the child
  process closes with exit code 0, error otherwise. An invocation of the server-stream
  backend with a session, during which \<open>cancel\<close> is not called and the event stream
  delivers no \<open>session.status\<close> event with status idle, completed or error and no
  \<open>error\<close> event, emits exactly one terminal status: idle when the request returns,
  error when it fails. Without a session, \<open>sendPrompt\<close> of the server-stream backend
  throws at once and emits nothing.
\<close>

theorem one_terminal_status_per_uncancelled_invocation:
  "(CancelCall \<notin> set happenings \<longrightarrow>
      (\<exists>final. final_status final ending \<and>
         terminal_statuses (emitted (state_of (droid_sendPrompt parse prompt happenings ending this)))
           = terminal_statuses (emitted this) @ [final])) \<and>
   (truthy (opencodeSessionId that) \<and> list_all undisturbed events \<longrightarrow>
      (\<exists>final. oc_final_status final result \<and>
         terminal_statuses (emitted (state_of (opencode_sendPrompt prompt events result that)))
           = terminal_statuses (emitted that) @ [final])) \<and>
   (\<not> truthy (opencodeSessionId that) \<longrightarrow>
      opencode_sendPrompt prompt events result that
        = Threw (ErrorObj ''No OpenCode session active'') that)"
proof -
  have a: "\<exists>final. final_status final ending \<and>
         terminal_statuses (emitted (state_of (droid_sendPrompt parse prompt happenings ending this)))
           = terminal_statuses (emitted this) @ [final]"
    if "CancelCall \<notin> set happenings"
    using droid_sendPrompt_terminal [of ending parse prompt happenings this] that by auto
  have c: "opencode_sendPrompt prompt events result that
        = Threw (ErrorObj ''No OpenCode session active'') that"
    if "\<not> truthy (opencodeSessionId that)"
    using that by (simp add: opencode_sendPrompt_def)
  from a c opencode_sendPrompt_terminal [of that events result prompt] show ?thesis by blast
qed

text \<open>
  The claim as first stated fails. An invocation of the process-exec backend that the
  user aborts emits \<open>stopped\<close> from \<open>cancel\<close> and then \<open>error\<close> from \<open>sendPrompt\<close>. An
  invocation of the server-stream backend without a session emits no terminal status.
  One with a session emits two when the server reports the session idle on the event
  stream before the request returns, and two when \<open>cancel\<close> is called meanwhile.
\<close>

theorem two_terminal_statuses_counterexample:
  "terminal_statuses (emitted (state_of
       (droid_sendPrompt example_parse ''hi'' handleAbort (ProcessClose None) example_droid)))
     = [StatusMsg Stopped None,
        StatusMsg Error (Some ''Droid stream exited with code null: Unknown error'')] \<and>
   terminal_statuses (emitted (state_of
       (opencode_sendPrompt ''hi'' [] (PromptParts []) example_opencode))) = [] \<and>
   terminal_statuses (emitted (state_of
       (opencode_sendPrompt ''hi'' [StreamEvent (SessionStatusEvent ''idle'' None)]
          (PromptParts []) (example_session\<lparr>emitted := []\<rparr>))))
     = [StatusMsg Idle None, StatusMsg Idle None] \<and>
   terminal_statuses (emitted (state_of
       (opencode_sendPrompt ''hi'' [CancelCalled (Responded True)]
          (PromptParts []) (example_session\<lparr>emitted := []\<rparr>))))
     = [StatusMsg Stopped None, StatusMsg Idle None]"
  by (simp add: droid_sendPrompt_def execStream_def droid_emit_Returned droid_cancel_def
      client_cancel_def onClose_def logger_debug_def initial_vars_def show_code_def
      example_droid_def example_opencode_def opencode_sendPrompt_def terminal_statuses_def
      js_trim_def Let_def handleAbort_def example_session_def opencode_startSession_def
      startEventSubscription_def opencode_emit_Returned opencode_cancel_def js_or_str_def)

theorem one_terminal_status_per_uncancelled_invocation_witness:
  "CancelCall \<notin> set [StdoutData (''{m}'' @ [CHR 0x0A] @ ''{c}'' @ [CHR 0x0A])] \<and>
   terminal_statuses (emitted (state_of
       (droid_sendPrompt example_parse ''list files''
          [StdoutData (''{m}'' @ [CHR 0x0A] @ ''{c}'' @ [CHR 0x0A])]
          (ProcessClose (Some 0)) example_droid)))
     = [StatusMsg Idle None] \<and>
   truthy (opencodeSessionId (example_session\<lparr>emitted := []\<rparr>)) \<and>
   list_all undisturbed
     [StreamEvent (MessageStreamEvent (Some ''a.txt'')),
      StreamEvent (SessionStatusEvent ''running'' None)] \<and>
   terminal_statuses (emitted (state_of
       (opencode_sendPrompt ''list files''
          [StreamEvent (MessageStreamEvent (Some ''a.txt'')),
           StreamEvent (SessionStatusEvent ''running'' None)]
          (PromptParts [TextPart (Some ''a.txt'')])
          (example_session\<lparr>emitted := []\<rparr>))))
     = [StatusMsg Idle None] \<and>
   \<not> truthy (opencodeSessionId example_opencode) \<and>
   opencode_sendPrompt ''list files'' [] (PromptParts []) example_opencode
     = Threw (ErrorObj ''No OpenCode session active'') example_opencode"
  using one_terminal_status_per_uncancelled_invocation
    [where happenings = "[StdoutData (''{m}'' @ [CHR 0x0A] @ ''{c}'' @ [CHR 0x0A])]"
       and ending = "ProcessClose (Some 0)" and parse = example_parse
       and prompt = "''list files''" and this = example_droid
       and that = "example_session\<lparr>emitted := []\<rparr>"
       and events = "[StreamEvent (MessageStreamEvent (Some ''a.txt'')),
                      StreamEvent (SessionStatusEvent ''running'' None)]"
       and result = "PromptParts [TextPart (Some ''a.txt'')]"]
    one_terminal_status_per_uncancelled_invocation
    [where that = example_opencode and prompt = "''list files''" and events = "[]"
       and result = "PromptParts []"]
  by (auto simp add: final_status_def oc_final_status_def example_droid_def example_opencode_def
      terminal_statuses_def example_session_fields)

text \<open>
  The scenario of a malformed line between two valid records: both records are turned
  into messages, the malformed line is logged, and the invocation ends idle.
\<close>

lemma malformed_line_scenario:
  "emitted (state_of
       (droid_sendPrompt example_parse ''hi''
          [StdoutData (''{m}'' @ [CHR 0x0A] @ ''not json'' @ [CHR 0x0A] @ ''{c}'' @ [CHR 0x0A])]
          (ProcessClose (Some 0)) example_droid))
     = [StatusMsg Running None, ModelOutput (Some ''a.txt'') (Some ''a.txt''),
        ModelOutput None (Some ''a.txt''), TokenCount 1 5, StatusMsg Idle None] \<and>
   debugLog (state_of
       (droid_sendPrompt example_parse ''hi''
          [StdoutData (''{m}'' @ [CHR 0x0A] @ ''not json'' @ [CHR 0x0A] @ ''{c}'' @ [CHR 0x0A])]
          (ProcessClose (Some 0)) example_droid))
     = [FailedToParseEvent ''not json'']"
  by (simp add: droid_sendPrompt_def execStream_def droid_emit_Returned
      onClose_def initial_vars_def example_droid_def example_driver_def
      js_trim_def Let_def
      onStdoutData_def stream_line_def parse_and_deliver_def deliver_event_def
      example_parse_def js_whitespace_def
      logger_debug_def)

subsection \<open>Cancelling when idle\<close>

text \<open>
  Claim C2 fails on the server-stream backend: with nothing in flight, \<open>cancel\<close> emits
  the status \<open>stopped\<close>, which makes the driver send a keep-alive pulse, and a second
  \<open>cancel\<close> emits it again. The process-exec backend does nothing when idle
  (\<open>droid_cancel_idle\<close>, \<open>droid_cancel_idempotent\<close>).
\<close>

theorem opencode_cancel_when_idle_emits_stopped:
  "emitted (state_of (opencode_cancel response example_opencode)) = [StatusMsg Stopped None] \<and>
   keepAlives (world (state_of (opencode_cancel response example_opencode))) = [False] \<and>
   emitted (state_of (opencode_cancel response'
       (state_of (opencode_cancel response example_opencode))))
     = [StatusMsg Stopped None, StatusMsg Stopped None] \<and>
   state_of (droid_cancel example_droid) = example_droid"
  by (simp add: opencode_cancel_def opencode_emit_Returned example_opencode_def
      example_driver_def onStatus_def keepAlive_def Let_def droid_cancel_def client_cancel_def
      example_droid_def)

subsection \<open>The end of a turn in the drivers\<close>

text \<open>
  The claim as first stated fails. A turn of the process-exec backend whose child process
  prints nothing and exits with code 0 ends with neither a message nor an error sent to
  the session. And in a turn that the user aborts after the assistant's text \<open>a.txt\<close>
  has arrived, the status \<open>stopped\<close> makes the driver send that partial text as a
  message, before the status \<open>error\<close> of the same turn arrives.
\<close>

theorem turn_without_output_counterexample:
  "codexMessages (world (state_of
       (droid_sendPrompt example_parse ''hi'' [] (ProcessClose (Some 0)) example_droid)))
     = [TaskStarted] \<and>
   codexMessages (world (state_of
       (droid_sendPrompt example_parse ''hi'' (StdoutData (''{m}'' @ [CHR 0x0A]) # handleAbort)
          (ProcessClose None) example_droid)))
     = [TaskStarted, TurnAborted, Message ''a.txt'', TaskComplete, TurnAborted,
        Message ''Error: Droid stream exited with code null: Unknown error'']"
  by (simp add: droid_sendPrompt_def execStream_def droid_emit_Returned
      onClose_def initial_vars_def example_droid_def example_driver_def
      onStatus_def keepAlive_def sendCodexMessage_def addMessage_def js_trim_def Let_def
      onStdoutData_def stream_line_def parse_and_deliver_def deliver_event_def
      example_parse_def js_whitespace_def droid_cancel_def client_cancel_def
      logger_debug_def show_code_def onModelOutput_def js_or_def js_or_str_def
      handleAbort_def)

text \<open>
  Claim C5, as amended. On the status \<open>error\<close> both drivers stop thinking, send
  \<open>turn_aborted\<close> and a message with the error text, and reset the accumulator and the
  response flag; the text accumulated at that moment is not sent. On the status \<open>idle\<close> or \<open>stopped\<close>
  they send the accumulated text, followed by \<open>task_complete\<close>, when a response is in
  progress and the text is not blank, and send nothing otherwise.
\<close>

theorem terminal_status_forwarding:
  "droid_onMessage (StatusMsg Error detail) d
     = d\<lparr>thinking := False,
         keepAlives := keepAlives d @ [False],
         codexMessages := codexMessages d
           @ [TurnAborted, Message (''Error: '' @ js_or_str detail ''Unknown error'')],
         messageBuffer := messageBuffer d
           @ [AddMessage (''Error: '' @ js_or_str detail ''Unknown error'') ''status''],
         accumulatedResponse := [],
         isResponseInProgress := False\<rparr> \<and>
   opencode_onMessage (StatusMsg status detail) d = droid_onMessage (StatusMsg status detail) d \<and>
   ((status = Idle \<or> status = Stopped) \<and>
    isResponseInProgress d \<and> js_trim (accumulatedResponse d) \<noteq> [] \<longrightarrow>
      droid_onMessage (StatusMsg status detail) d
        = d\<lparr>thinking := False,
            keepAlives := keepAlives d @ [False],
            codexMessages := codexMessages d @ [Message (accumulatedResponse d), TaskComplete],
            accumulatedResponse := [],
            isResponseInProgress := False\<rparr>) \<and>
   ((status = Idle \<or> status = Stopped) \<and>
    \<not> (isResponseInProgress d \<and> js_trim (accumulatedResponse d) \<noteq> []) \<longrightarrow>
      droid_onMessage (StatusMsg status detail) d
        = d\<lparr>thinking := False, keepAlives := keepAlives d @ [False]\<rparr>)"
  by (auto simp add: onStatus_def Let_def sendCodexMessage_def keepAlive_def addMessage_def)

theorem terminal_status_forwarding_witness:
  "isResponseInProgress (example_driver\<lparr>isResponseInProgress := True, accumulatedResponse := ''a.txt''\<rparr>) \<and>
   js_trim (accumulatedResponse
       (example_driver\<lparr>isResponseInProgress := True, accumulatedResponse := ''a.txt''\<rparr>)) \<noteq> [] \<and>
   codexMessages (droid_onMessage (StatusMsg Idle None)
       (example_driver\<lparr>isResponseInProgress := True, accumulatedResponse := ''a.txt''\<rparr>))
     = [Message ''a.txt'', TaskComplete] \<and>
   \<not> isResponseInProgress example_driver \<and>
   codexMessages (droid_onMessage (StatusMsg Stopped None) example_driver) = []"
  using terminal_status_forwarding
    [where status = Idle and detail = None
       and d = "example_driver\<lparr>isResponseInProgress := True, accumulatedResponse := ''a.txt''\<rparr>"]
    terminal_status_forwarding [where status = Stopped and detail = None and d = example_driver]
  by (simp add: example_driver_def js_trim_def js_whitespace_def)

subsection \<open>The probes\<close>

lemma settled_stays:
  "settled p = Some r \<Longrightarrow> settled (fold isAvailable_callback events p) = Some r"
proof (induction events arbitrary: p)
  case Nil
  then show ?case by simp
next
  case (Cons x events)
  obtain t e where x: "x = (t, e)" by (cases x)
  from Cons.prems have "settled (isAvailable_callback x p) = Some r"
    by (cases e) (simp_all add: x resolve_def)
  from Cons.IH [OF this] show ?case by simp
qed

lemma isAvailable_settles_from:
  "settled p = None \<Longrightarrow>
   \<exists>t v. settled (fold isAvailable_callback (with_timer 5000 events) p) = Some (t, v) \<and> t \<le> 5000"
proof (induction events arbitrary: p)
  case Nil
  then show ?case by (auto simp: resolve_def)
next
  case (Cons x events)
  obtain t e where x: "x = (t, e)" by (cases x)
  show ?case
  proof (cases "t < 5000")
    case False
    have "settled (isAvailable_callback (5000, TimerFired) p) = Some (5000, False)"
      using Cons.prems by (simp add: resolve_def)
    from settled_stays [OF this, of "x # events"] False x show ?thesis by auto
  next
    case True
    show ?thesis
    proof (cases "settled (isAvailable_callback x p)")
      case None
      from Cons.IH [OF None] True x show ?thesis by simp
    next
      case (Some r)
      have "r = (t, snd r)"
        using Some Cons.prems by (cases e) (auto simp: x resolve_def)
      with settled_stays [OF Some, of "with_timer 5000 events"] True x show ?thesis
        by (metis fold_simps(2) less_imp_le_nat case_prod_conv with_timer.simps(2))
    qed
  qed
qed

lemma isAvailable_settles:
  "\<exists>t v. settled (isAvailable events) = Some (t, v) \<and> t \<le> 5000"
  using isAvailable_settles_from [of new_probe events]
  by (simp add: isAvailable_def new_probe_def)

lemma getVersion_pending:
  "settled p = None \<Longrightarrow> list_all (\<lambda>(t, e). e = TimerFired \<or> (\<exists>data. e = ProbeStdout data)) events \<Longrightarrow>
   settled (fold getVersion_callback events p) = None"
proof (induction events arbitrary: p)
  case Nil
  then show ?case by simp
next
  case (Cons x events)
  obtain t e where x: "x = (t, e)" by (cases x)
  from Cons.prems have "settled (getVersion_callback x p) = None"
    by (auto simp: x)
  from Cons.IH [OF this] Cons.prems show ?case by simp
qed

text \<open>
  Claim C8 fails for the version query: while the child process neither exits nor fails
  to start, the promise of \<open>getVersion\<close> stays pending, whereas that of \<open>isAvailable\<close>
  is settled with false after 5000 ms (and by then in every case, \<open>isAvailable_settles\<close>).
\<close>

theorem getVersion_never_settles_without_exit:
  "settled (getVersion []) = None \<and>
   settled (getVersion [(10, ProbeStdout ''0.26.1''), (60000, ProbeStdout ''more'')]) = None \<and>
   settled (isAvailable [(10, ProbeStdout ''0.26.1''), (60000, ProbeStdout ''more'')])
     = Some (5000, False)"
  by (simp add: getVersion_def isAvailable_def new_probe_def resolve_def)

end
